theory Spec2Isabelle
  imports Main "HOL-Library.Multiset" "HOL-Library.Sublist"
begin

section \<open>Go strings and the standard-library string functions the code calls\<close>

text \<open>
  A Go string is a sequence of bytes, here a \<open>string\<close> (a list of 8-bit characters).
  \<open>strings.TrimSpace\<close> removes every leading and trailing white-space rune, where a
  rune is white space when Unicode gives it the White_Space property; \<open>white_space\<close>
  lists the UTF-8 encodings of those runes (U+0009 to U+000D, U+0020, U+0085, U+00A0,
  U+1680, U+2000 to U+200A, U+2028, U+2029, U+202F, U+205F, U+3000).
\<close>

definition white_space :: "string list" where
  "white_space =
    [[CHR 0x09], [CHR 0x0A], [CHR 0x0B], [CHR 0x0C], [CHR 0x0D], [CHR 0x20],
     [CHR 0xC2, CHR 0x85], [CHR 0xC2, CHR 0xA0],
     [CHR 0xE1, CHR 0x9A, CHR 0x80],
     [CHR 0xE2, CHR 0x80, CHR 0x80], [CHR 0xE2, CHR 0x80, CHR 0x81],
     [CHR 0xE2, CHR 0x80, CHR 0x82], [CHR 0xE2, CHR 0x80, CHR 0x83],
     [CHR 0xE2, CHR 0x80, CHR 0x84], [CHR 0xE2, CHR 0x80, CHR 0x85],
     [CHR 0xE2, CHR 0x80, CHR 0x86], [CHR 0xE2, CHR 0x80, CHR 0x87],
     [CHR 0xE2, CHR 0x80, CHR 0x88], [CHR 0xE2, CHR 0x80, CHR 0x89],
     [CHR 0xE2, CHR 0x80, CHR 0x8A],
     [CHR 0xE2, CHR 0x80, CHR 0xA8], [CHR 0xE2, CHR 0x80, CHR 0xA9],
     [CHR 0xE2, CHR 0x80, CHR 0xAF], [CHR 0xE2, CHR 0x81, CHR 0x9F],
     [CHR 0xE3, CHR 0x80, CHR 0x80]]"

definition space_at_head :: "string list \<Rightarrow> string \<Rightarrow> string option" where
  "space_at_head ws s = find (\<lambda>p. p \<noteq> [] \<and> take (length p) s = p) ws"

function trim_head :: "string list \<Rightarrow> string \<Rightarrow> string" where
  "trim_head ws s =
     (case space_at_head ws s of
        None \<Rightarrow> s
      | Some p \<Rightarrow> trim_head ws (drop (length p) s))"
  by pat_completeness auto
termination
proof (relation "measure (\<lambda>(ws, s). length s)")
  show "wf (measure (\<lambda>(ws, s). length s))" by simp
next
  fix ws :: "string list" and s p :: string
  assume "space_at_head ws s = Some p"
  then have p: "p \<noteq> []" "take (length p) s = p"
    by (auto simp: space_at_head_def find_Some_iff)
  from p(2) have "length (take (length p) s) = length p"
    by simp
  then have "length p \<le> length s"
    by simp
  with p(1) show "((ws, drop (length p) s), (ws, s)) \<in> measure (\<lambda>(ws, s). length s)"
    by (cases p) auto
qed

declare trim_head.simps [simp del]

definition TrimSpace :: "string \<Rightarrow> string" where
  "TrimSpace s = rev (trim_head (map rev white_space) (rev (trim_head white_space s)))"

text \<open>\<open>strings.TrimPrefix\<close> and \<open>strings.TrimSuffix\<close>: remove the affix when it is there.\<close>

definition TrimPrefix :: "string \<Rightarrow> string \<Rightarrow> string" where
  "TrimPrefix s pre = (if take (length pre) s = pre then drop (length pre) s else s)"

definition TrimSuffix :: "string \<Rightarrow> string \<Rightarrow> string" where
  "TrimSuffix s suf =
     (if length suf \<le> length s \<and> drop (length s - length suf) s = suf
      then take (length s - length suf) s else s)"

section \<open>Track records and the merge policy (backend/metadata/metadata.go)\<close>

text \<open>
  \<open>TrackMetadata\<close> is the Go struct, field for field. The numeric fields are Go \<open>int\<close>s;
  the code only stores them and compares them with 0, so they are integers here.
\<close>

record TrackMetadata =
  FilePath :: string
  FileName :: string
  Title :: string
  Artist :: string
  Album :: string
  AlbumArtist :: string
  TrackNumber :: int
  DiscNumber :: int
  Genre :: string
  Year :: int
  Comment :: string
  Composer :: string
  Lyrics :: string
  HasCover :: bool
  CoverImage :: string
  Format :: string
  Bitrate :: int
  SampleRate :: int

text \<open>The zero value of the struct: \<open>TrackMetadata{}\<close>.\<close>

definition zeroTrack :: TrackMetadata where
  "zeroTrack =
     \<lparr>FilePath = '''', FileName = '''', Title = '''', Artist = '''', Album = '''',
      AlbumArtist = '''', TrackNumber = 0, DiscNumber = 0, Genre = '''', Year = 0,
      Comment = '''', Composer = '''', Lyrics = '''', HasCover = False, CoverImage = '''',
      Format = '''', Bitrate = 0, SampleRate = 0\<rparr>"

text \<open>
  \<open>mergeMetadata\<close> copies the base record and then runs the source's fifteen guarded
  assignments in their order.
\<close>

definition mergeMetadata :: "TrackMetadata \<Rightarrow> TrackMetadata \<Rightarrow> TrackMetadata" where
  "mergeMetadata base override =
    (let result = base;
         result = (if TrimSpace (Title override) \<noteq> ''''
                   then result\<lparr>Title := Title override\<rparr> else result);
         result = (if TrimSpace (Artist override) \<noteq> ''''
                   then result\<lparr>Artist := Artist override\<rparr> else result);
         result = (if TrimSpace (Album override) \<noteq> ''''
                   then result\<lparr>Album := Album override\<rparr> else result);
         result = (if TrimSpace (AlbumArtist override) \<noteq> ''''
                   then result\<lparr>AlbumArtist := AlbumArtist override\<rparr> else result);
         result = (if TrimSpace (Genre override) \<noteq> ''''
                   then result\<lparr>Genre := Genre override\<rparr> else result);
         result = (if TrimSpace (Comment override) \<noteq> ''''
                   then result\<lparr>Comment := Comment override\<rparr> else result);
         result = (if TrimSpace (Composer override) \<noteq> ''''
                   then result\<lparr>Composer := Composer override\<rparr> else result);
         result = (if TrimSpace (Lyrics override) \<noteq> ''''
                   then result\<lparr>Lyrics := Lyrics override\<rparr> else result);
         result = (if TrackNumber override > 0
                   then result\<lparr>TrackNumber := TrackNumber override\<rparr> else result);
         result = (if DiscNumber override > 0
                   then result\<lparr>DiscNumber := DiscNumber override\<rparr> else result);
         result = (if Year override > 0
                   then result\<lparr>Year := Year override\<rparr> else result);
         result = (if HasCover override \<and> TrimSpace (CoverImage override) \<noteq> ''''
                   then result\<lparr>CoverImage := CoverImage override, HasCover := True\<rparr>
                   else result);
         result = (if TrimSpace (Format override) \<noteq> ''''
                   then result\<lparr>Format := Format override\<rparr> else result);
         result = (if Bitrate override > 0
                   then result\<lparr>Bitrate := Bitrate override\<rparr> else result);
         result = (if SampleRate override > 0
                   then result\<lparr>SampleRate := SampleRate override\<rparr> else result)
     in result)"


section \<open>Errors, the file system and the external libraries\<close>

text \<open>
  A Go \<open>error\<close> value, as far as the code looks at it: whether \<open>os.IsNotExist\<close> holds
  of it, and the text that \<open>%v\<close> prints.
\<close>

datatype error = Error (IsNotExist: bool) (Message: string)

text \<open>What \<open>tag.ReadFrom\<close> hands back (package github.com/dhowden/tag): the accessors
  that \<open>LoadMetadata\<close> calls. \<open>tag_Track\<close> and \<open>tag_Disc\<close> are the first components of
  \<open>m.Track()\<close> and \<open>m.Disc()\<close>.\<close>

record Picture =
  MIMEType :: string
  Data :: string

record tag_Metadata =
  tag_Title :: string
  tag_Artist :: string
  tag_Album :: string
  tag_AlbumArtist :: string
  tag_Track :: int
  tag_Disc :: int
  tag_Genre :: string
  tag_Year :: int
  tag_Comment :: string
  tag_Composer :: string
  tag_Lyrics :: string
  tag_Format :: string
  tag_Picture :: "Picture option"

record AudioProperties =
  props_Bitrate :: int
  props_SampleRate :: int

text \<open>
  The state of the file system, by what the code observes of it:
  \<open>files p\<close> is the outcome of \<open>os.ReadFile(p)\<close>, \<open>open_err p\<close> that of \<open>os.Open(p)\<close>,
  \<open>tag_of p\<close> that of \<open>tag.ReadFrom\<close> on the opened file, \<open>props_of p\<close> that of
  \<open>analysis.GetAudioProperties(p)\<close>, and \<open>mkdir_err\<close>, \<open>write_err\<close>, \<open>remove_err\<close> say
  whether \<open>os.MkdirAll\<close>, \<open>os.WriteFile\<close> and \<open>os.Remove\<close> would fail. A write or a removal
  that succeeds changes \<open>files\<close>; the other observations are read-only here.
  \<open>os.Stat(p)\<close> reports that \<open>p\<close> does not exist exactly when reading \<open>p\<close> does.
\<close>

record fs =
  files :: "string \<Rightarrow> error + string"
  open_err :: "string \<Rightarrow> error option"
  tag_of :: "string \<Rightarrow> error + tag_Metadata"
  props_of :: "string \<Rightarrow> error + AudioProperties"
  mkdir_err :: "string \<Rightarrow> error option"
  write_err :: "string \<Rightarrow> error option"
  remove_err :: "string \<Rightarrow> error option"

definition WriteFile :: "fs \<Rightarrow> string \<Rightarrow> string \<Rightarrow> error option \<times> fs" where
  "WriteFile s p data =
     (case write_err s p of
        Some e \<Rightarrow> (Some e, s)
      | None \<Rightarrow> (None, s\<lparr>files := (files s)(p := Inr data)\<rparr>))"

definition stat_IsNotExist :: "fs \<Rightarrow> string \<Rightarrow> bool" where
  "stat_IsNotExist s p = (case files s p of Inl e \<Rightarrow> IsNotExist e | Inr _ \<Rightarrow> False)"

definition Remove :: "fs \<Rightarrow> string \<Rightarrow> error option \<times> fs" where
  "Remove s p =
     (case files s p of
        Inl e \<Rightarrow> (Some e, s)
      | Inr _ \<Rightarrow>
          (case remove_err s p of
             Some e \<Rightarrow> (Some e, s)
           | None \<Rightarrow> (None, s\<lparr>files := (files s)(p := Inl (Error True ''file does not exist''))\<rparr>)))"

text \<open>The persisted path list, \<open>storage.Library\<close>.\<close>

record Library =
  Files :: "string list"

text \<open>
  The platform and the libraries outside the repository, as parameters: the user's
  configuration directory, \<open>runtime.GOOS\<close>, the \<open>path/filepath\<close> functions, the Unicode
  case mappings, SHA-1 followed by hex encoding, base64, the JSON codec of
  \<open>encoding/json\<close> at the two types the code uses it at, and \<open>id3_write\<close>, the effect of
  the ID3v2 library calls of \<open>saveID3v2\<close> (from \<open>id3v2.Open\<close> to \<open>id3Tag.Save\<close>).
\<close>

record env =
  UserConfigDir :: "error + string"
  GOOS :: string
  filepath_Base :: "string \<Rightarrow> string"
  filepath_Ext :: "string \<Rightarrow> string"
  filepath_Dir :: "string \<Rightarrow> string"
  filepath_Clean :: "string \<Rightarrow> string"
  filepath_Abs :: "string \<Rightarrow> error + string"
  filepath_Join :: "string list \<Rightarrow> string"
  ToUpper :: "string \<Rightarrow> string"
  ToLower :: "string \<Rightarrow> string"
  sha1_hex :: "string \<Rightarrow> string"
  base64_EncodeToString :: "string \<Rightarrow> string"
  json_Marshal :: "TrackMetadata \<Rightarrow> error + string"
  json_Unmarshal :: "string \<Rightarrow> error + TrackMetadata"
  json_Marshal_Library :: "Library \<Rightarrow> error + string"
  json_Unmarshal_Library :: "string \<Rightarrow> error + Library"
  id3_write :: "fs \<Rightarrow> TrackMetadata \<Rightarrow> error option \<times> fs"


section \<open>Reading, merging and saving one track (backend/metadata/metadata.go)\<close>

definition firstNonEmpty :: "string list \<Rightarrow> string" where
  "firstNonEmpty values =
     (case find (\<lambda>v. TrimSpace v \<noteq> '''') values of Some v \<Rightarrow> v | None \<Rightarrow> '''')"

definition trimExt :: "env \<Rightarrow> string \<Rightarrow> string" where
  "trimExt e name = TrimSuffix name (filepath_Ext e name)"

definition minimalMetadata :: "env \<Rightarrow> string \<Rightarrow> TrackMetadata" where
  "minimalMetadata e path =
     (let base = filepath_Base e path in
      zeroTrack\<lparr>FilePath := path,
                FileName := base,
                Title := trimExt e base,
                Artist := ''Unknown Artist'',
                Album := ''Unknown Album'',
                AlbumArtist := '''',
                Genre := '''',
                Year := 0,
                Format := TrimPrefix (ToUpper e (filepath_Ext e path)) ''.''\<rparr>)"

definition sidecarDir :: "env \<Rightarrow> error + string" where
  "sidecarDir e =
     (case UserConfigDir e of
        Inl err \<Rightarrow> Inl (Error False ''user config dir unavailable'')
      | Inr configDir \<Rightarrow>
          if TrimSpace configDir = '''' then Inl (Error False ''user config dir unavailable'')
          else Inr (filepath_Join e [configDir, ''Kitty'', ''sidecars'']))"

definition legacySidecarPath :: "string \<Rightarrow> string" where
  "legacySidecarPath path = path @ ''.kittymeta.json''"

definition sidecarKey :: "env \<Rightarrow> string \<Rightarrow> string" where
  "sidecarKey e path =
     (let clean = filepath_Clean e path;
          clean = (case filepath_Abs e clean of
                     Inr absolute \<Rightarrow> if TrimSpace absolute \<noteq> '''' then absolute else clean
                   | Inl err \<Rightarrow> clean);
          clean = (if GOOS e = ''windows'' then ToLower e clean else clean)
      in clean)"

definition sidecarPath :: "env \<Rightarrow> string \<Rightarrow> string" where
  "sidecarPath e path =
     (case sidecarDir e of
        Inl err \<Rightarrow> legacySidecarPath path
      | Inr dir \<Rightarrow> filepath_Join e [dir, sha1_hex e (sidecarKey e path) @ ''.kittymeta.json''])"

text \<open>\<open>writeSidecar\<close> returns the error (\<open>None\<close> for \<open>nil\<close>) and the file system after it.\<close>

definition writeSidecar :: "env \<Rightarrow> fs \<Rightarrow> TrackMetadata \<Rightarrow> error option \<times> fs" where
  "writeSidecar e s md =
     (case json_Marshal e md of
        Inl err \<Rightarrow> (Some err, s)
      | Inr data \<Rightarrow>
          (let path = sidecarPath e (FilePath md) in
           case mkdir_err s (filepath_Dir e path) of
             Some err \<Rightarrow> (Some err, s)
           | None \<Rightarrow>
               (case WriteFile s path data of
                  (Some err, s1) \<Rightarrow> (Some err, s1)
                | (None, s1) \<Rightarrow>
                    (let legacy = legacySidecarPath (FilePath md) in
                     if legacy \<noteq> path then (None, snd (Remove s1 legacy)) else (None, s1)))))"

text \<open>
  \<open>readSidecar\<close> returns \<open>Inl err\<close> for \<open>(nil, err)\<close> and \<open>Inr md\<close> for \<open>(&md, nil)\<close>, with the
  file system after it: a record found only at the legacy place is written to the
  primary place.
\<close>

definition readSidecar :: "env \<Rightarrow> fs \<Rightarrow> string \<Rightarrow> (error + TrackMetadata) \<times> fs" where
  "readSidecar e s path =
     (let primary = sidecarPath e path;
          read = (case files s primary of
                    Inr data \<Rightarrow> Inr data
                  | Inl err \<Rightarrow>
                      (let legacy = legacySidecarPath path in
                       if legacy = primary then Inl err
                       else (case files s legacy of
                               Inl altErr \<Rightarrow> Inl err
                             | Inr alt \<Rightarrow> Inr alt)))
      in case read of
           Inl err \<Rightarrow> (Inl err, s)
         | Inr data \<Rightarrow>
             (case json_Unmarshal e data of
                Inl err \<Rightarrow> (Inl err, s)
              | Inr md0 \<Rightarrow>
                  (let md = md0\<lparr>FilePath := path, FileName := filepath_Base e path\<rparr> in
                   if legacySidecarPath path \<noteq> primary \<and> stat_IsNotExist s primary
                   then (Inr md, snd (writeSidecar e s md))
                   else (Inr md, s))))"

definition maxCoverBytes :: nat where
  "maxCoverBytes = 8 * 1024 * 1024"

text \<open>The record that \<open>LoadMetadata\<close> builds from a tag that was read.\<close>

definition tagRecord :: "env \<Rightarrow> string \<Rightarrow> tag_Metadata \<Rightarrow> TrackMetadata" where
  "tagRecord e path m =
     zeroTrack\<lparr>FilePath := path,
               FileName := filepath_Base e path,
               Title := firstNonEmpty [tag_Title m, trimExt e (filepath_Base e path)],
               Artist := firstNonEmpty [tag_Artist m, ''Unknown Artist''],
               Album := firstNonEmpty [tag_Album m, ''Unknown Album''],
               AlbumArtist := tag_AlbumArtist m,
               TrackNumber := tag_Track m,
               DiscNumber := tag_Disc m,
               Genre := tag_Genre m,
               Year := tag_Year m,
               Comment := tag_Comment m,
               Composer := tag_Composer m,
               Lyrics := tag_Lyrics m,
               Format := firstNonEmpty
                  [tag_Format m, TrimPrefix (ToUpper e (filepath_Ext e path)) ''.'']\<rparr>"

definition embedPicture :: "env \<Rightarrow> Picture option \<Rightarrow> TrackMetadata \<Rightarrow> TrackMetadata" where
  "embedPicture e picture md =
     (case picture of
        None \<Rightarrow> md
      | Some pic \<Rightarrow>
          if length (Data pic) > maxCoverBytes then md
          else (let mimeType = (if MIMEType pic = '''' then ''image/jpeg'' else MIMEType pic);
                    b64 = base64_EncodeToString e (Data pic)
                in md\<lparr>HasCover := True,
                      CoverImage := ''data:'' @ mimeType @ '';base64,'' @ b64\<rparr>))"

text \<open>
  \<open>LoadMetadata\<close> returns \<open>Inl err\<close> for \<open>(nil, err)\<close> and \<open>Inr md\<close> for \<open>(md, nil)\<close>, with the
  file system after the sidecar lookup.
\<close>

definition LoadMetadata :: "env \<Rightarrow> fs \<Rightarrow> string \<Rightarrow> (error + TrackMetadata) \<times> fs" where
  "LoadMetadata e s path =
     (case open_err s path of
        Some err \<Rightarrow> (Inl err, s)
      | None \<Rightarrow>
          (case tag_of s path of
             Inl err \<Rightarrow>
               (let md = minimalMetadata e path in
                case readSidecar e s path of
                  (Inr side, s1) \<Rightarrow> (Inr (mergeMetadata md side), s1)
                | (Inl sideErr, s1) \<Rightarrow> (Inr md, s1))
           | Inr m \<Rightarrow>
               (let md = tagRecord e path m;
                    md = embedPicture e (tag_Picture m) md;
                    md = (case props_of s path of
                            Inr props \<Rightarrow> md\<lparr>Bitrate := props_Bitrate props,
                                               SampleRate := props_SampleRate props\<rparr>
                          | Inl err \<Rightarrow> md)
                in case readSidecar e s path of
                     (Inr side, s1) \<Rightarrow> (Inr (mergeMetadata md side), s1)
                   | (Inl sideErr, s1) \<Rightarrow> (Inr md, s1))))"

definition saveID3v2 :: "env \<Rightarrow> fs \<Rightarrow> TrackMetadata \<Rightarrow> error option \<times> fs" where
  "saveID3v2 e s md =
     (case id3_write e s md of
        (Some err, s1) \<Rightarrow> (Some err, s1)
      | (None, s1) \<Rightarrow> (None, snd (writeSidecar e s1 md)))"

definition SaveMetadata :: "env \<Rightarrow> fs \<Rightarrow> TrackMetadata \<Rightarrow> error option \<times> fs" where
  "SaveMetadata e s md =
     (let ext = ToLower e (filepath_Ext e (FilePath md)) in
      if ext = ''.mp3'' then saveID3v2 e s md
      else (case writeSidecar e s md of
              (Some err, s1) \<Rightarrow> (Some err, s1)
            | (None, s1) \<Rightarrow> (None, s1)))"


section \<open>The persisted path list (package storage)\<close>

definition GetConfigPath :: "env \<Rightarrow> string" where
  "GetConfigPath e =
     (case UserConfigDir e of
        Inl err \<Rightarrow> ''kitty_library.json''
      | Inr configDir \<Rightarrow> filepath_Join e [configDir, ''kitty_library.json''])"

definition getLegacyConfigPath :: "env \<Rightarrow> string" where
  "getLegacyConfigPath e =
     (case UserConfigDir e of
        Inl err \<Rightarrow> ''metago_library.json''
      | Inr configDir \<Rightarrow> filepath_Join e [configDir, ''metago_library.json''])"

definition SaveLibrary :: "env \<Rightarrow> fs \<Rightarrow> string list \<Rightarrow> error option \<times> fs" where
  "SaveLibrary e s fileList =
     (let lib = \<lparr>Files = fileList\<rparr> in
      case json_Marshal_Library e lib of
        Inl err \<Rightarrow> (Some err, s)
      | Inr data \<Rightarrow>
          (let path = GetConfigPath e in
           case mkdir_err s (filepath_Dir e path) of
             Some err \<Rightarrow> (Some err, s)
           | None \<Rightarrow> WriteFile s path data))"

text \<open>
  \<open>LoadLibrary\<close> returns \<open>Inl err\<close> for \<open>([]string{}, err)\<close> and \<open>Inr paths\<close> for
  \<open>(paths, nil)\<close>.
\<close>

definition decodeLibrary :: "env \<Rightarrow> string \<Rightarrow> error + string list" where
  "decodeLibrary e data =
     (case json_Unmarshal_Library e data of
        Inl err \<Rightarrow> Inl err
      | Inr lib \<Rightarrow> Inr (Files lib))"

definition LoadLibrary :: "env \<Rightarrow> fs \<Rightarrow> error + string list" where
  "LoadLibrary e s =
     (let path = GetConfigPath e in
      case files s path of
        Inr data \<Rightarrow> decodeLibrary e data
      | Inl err \<Rightarrow>
          if IsNotExist err then Inr []
          else (let legacy = getLegacyConfigPath e in
                if legacy \<noteq> path
                then (case files s legacy of
                        Inr alt \<Rightarrow> decodeLibrary e alt
                      | Inl altErr \<Rightarrow> Inl err)
                else Inl err))"

section \<open>The library index (backend/library/library.go)\<close>

record BatchResult =
  Tracks :: "TrackMetadata list"
  Errors :: "string list"

text \<open>The \<open>Manager\<close> without its mutex: the map and the order sequence.\<close>

record Manager =
  tracks :: "string \<rightharpoonup> TrackMetadata"
  order :: "string list"

definition NewManager :: Manager where
  "NewManager = \<lparr>tracks = Map.empty, order = []\<rparr>"

text \<open>A Go \<open>for ... range\<close> loop over a slice is a left fold of the loop body.\<close>

definition snapshotLocked :: "Manager \<Rightarrow> TrackMetadata list" where
  "snapshotLocked m =
     foldl (\<lambda>acc path. case tracks m path of Some t \<Rightarrow> acc @ [t] | None \<Rightarrow> acc)
       [] (order m)"

definition snapshot :: "Manager \<Rightarrow> TrackMetadata list" where
  "snapshot m = snapshotLocked m"

definition hasPath :: "Manager \<Rightarrow> string \<Rightarrow> bool" where
  "hasPath m path = (path \<in> set (order m))"

definition filterNew :: "Manager \<Rightarrow> string list \<Rightarrow> string list" where
  "filterNew m paths =
     snd (foldl (\<lambda>(seen, unique) p.
                   if p \<in> seen then (seen, unique)
                   else (insert p seen,
                         if tracks m p = None then unique @ [p] else unique))
            ({}, []) paths)"

text \<open>One message on the results channel: \<open>res{track, err, path}\<close>.\<close>

record res =
  res_track :: TrackMetadata
  res_err :: "error option"
  res_path :: string

text \<open>
  What one worker does with one job. The jobs are handed out in the order of \<open>unique\<close>,
  and \<open>runWorkers\<close> lets each read see the file system the reads before it left; the
  order in which the results reach the channel is the separate parameter \<open>arrival\<close> of
  \<open>loadAndMerge\<close>. The number of workers does not enter.
\<close>

definition worker :: "env \<Rightarrow> fs \<Rightarrow> string \<Rightarrow> res \<times> fs" where
  "worker e s path =
     (case LoadMetadata e s path of
        (Inl err, s1) \<Rightarrow> (\<lparr>res_track = zeroTrack, res_err = Some err, res_path = path\<rparr>, s1)
      | (Inr md, s1) \<Rightarrow> (\<lparr>res_track = md, res_err = None, res_path = path\<rparr>, s1))"

definition runWorkers :: "env \<Rightarrow> fs \<Rightarrow> string list \<Rightarrow> res list \<times> fs" where
  "runWorkers e s unique =
     foldl (\<lambda>(rs, s0) p. case worker e s0 p of (r, s1) \<Rightarrow> (rs @ [r], s1)) ([], s) unique"

definition collect :: "res list \<Rightarrow> TrackMetadata list \<times> string list" where
  "collect results =
     foldl (\<lambda>(newTracks, errs) r.
              case res_err r of
                Some err \<Rightarrow> (newTracks, errs @ [res_path r @ '': '' @ Message err])
              | None \<Rightarrow> (newTracks @ [res_track r], errs))
       ([], []) results"

definition reorder :: "string list \<Rightarrow> TrackMetadata list \<Rightarrow> TrackMetadata list" where
  "reorder unique newTracks =
     (let loadedByPath = foldl (\<lambda>mp t. mp(FilePath t \<mapsto> t)) Map.empty newTracks
      in foldl (\<lambda>acc p. case loadedByPath p of Some t \<Rightarrow> acc @ [t] | None \<Rightarrow> acc)
           [] unique)"

definition mergeInto :: "Manager \<Rightarrow> TrackMetadata list \<Rightarrow> Manager" where
  "mergeInto m orderedNewTracks =
     foldl (\<lambda>m0 t.
              \<lparr>tracks = (tracks m0)(FilePath t \<mapsto> t),
               order = (if tracks m0 (FilePath t) = None then order m0 @ [FilePath t]
                        else order m0)\<rparr>)
       m orderedNewTracks"

text \<open>
  \<open>loadAndMerge\<close> returns the batch result, the top-level error, the manager and the file
  system after the call. \<open>arrival\<close> is the order in which the workers' results come out
  of the channel.
\<close>

definition loadAndMerge ::
  "env \<Rightarrow> (res list \<Rightarrow> res list) \<Rightarrow> fs \<Rightarrow> Manager \<Rightarrow> string list \<Rightarrow> bool
     \<Rightarrow> (BatchResult \<times> error option) \<times> Manager \<times> fs" where
  "loadAndMerge e arrival s m paths persist =
     (let unique = filterNew m paths in
      if unique = [] then ((\<lparr>Tracks = snapshot m, Errors = []\<rparr>, None), m, s)
      else
        (case runWorkers e s unique of
           (sent, s1) \<Rightarrow>
             (case collect (arrival sent) of
                (newTracks, errs) \<Rightarrow>
                  (let orderedNewTracks = reorder unique newTracks in
                   if orderedNewTracks \<noteq> [] then
                     (let m1 = mergeInto m orderedNewTracks in
                      if persist then
                        (case SaveLibrary e s1 (order m1) of
                           (Some err, s2) \<Rightarrow>
                             ((\<lparr>Tracks = snapshot m1,
                                Errors = errs @ [''save library failed: '' @ Message err]\<rparr>,
                               None), m1, s2)
                         | (None, s2) \<Rightarrow>
                             ((\<lparr>Tracks = snapshot m1, Errors = errs\<rparr>, None), m1, s2))
                      else ((\<lparr>Tracks = snapshot m1, Errors = errs\<rparr>, None), m1, s1))
                   else ((\<lparr>Tracks = snapshot m, Errors = errs\<rparr>, None), m, s1)))))"

definition AddFiles ::
  "env \<Rightarrow> (res list \<Rightarrow> res list) \<Rightarrow> fs \<Rightarrow> Manager \<Rightarrow> string list
     \<Rightarrow> (BatchResult \<times> error option) \<times> Manager \<times> fs" where
  "AddFiles e arrival s m paths = loadAndMerge e arrival s m paths True"

definition LoadStoredLibrary ::
  "env \<Rightarrow> (res list \<Rightarrow> res list) \<Rightarrow> fs \<Rightarrow> Manager
     \<Rightarrow> (BatchResult \<times> error option) \<times> Manager \<times> fs" where
  "LoadStoredLibrary e arrival s m =
     (case LoadLibrary e s of
        Inl err \<Rightarrow> ((\<lparr>Tracks = [], Errors = []\<rparr>, Some err), m, s)
      | Inr paths \<Rightarrow> loadAndMerge e arrival s m paths False)"

text \<open>
  \<open>UpdateAndReload\<close> returns \<open>Inl err\<close> for \<open>(TrackMetadata{}, err)\<close> and \<open>Inr md\<close> for
  \<open>(md, nil)\<close>.
\<close>

definition UpdateAndReload ::
  "env \<Rightarrow> fs \<Rightarrow> Manager \<Rightarrow> TrackMetadata \<Rightarrow> (error + TrackMetadata) \<times> Manager \<times> fs" where
  "UpdateAndReload e s m md =
     (case SaveMetadata e s md of
        (Some err, s1) \<Rightarrow> (Inl err, m, s1)
      | (None, s1) \<Rightarrow>
          (case LoadMetadata e s1 (FilePath md) of
             (Inl err, s2) \<Rightarrow> (Inl err, m, s2)
           | (Inr refreshed, s2) \<Rightarrow>
               (let m1 = m\<lparr>tracks := (tracks m)(FilePath refreshed \<mapsto> refreshed)\<rparr>;
                    m2 = (if \<not> hasPath m1 (FilePath refreshed)
                          then m1\<lparr>order := order m1 @ [FilePath refreshed]\<rparr> else m1)
                in (Inr refreshed, m2, s2))))"

text \<open>The twelve guarded assignments of \<open>ApplyMetadata\<close> to its local \<open>existing\<close>.\<close>

definition applyOverlay :: "TrackMetadata \<Rightarrow> TrackMetadata \<Rightarrow> TrackMetadata" where
  "applyOverlay existing overlay =
     (let existing = (if Title overlay \<noteq> ''''
                      then existing\<lparr>Title := Title overlay\<rparr> else existing);
          existing = (if Artist overlay \<noteq> ''''
                      then existing\<lparr>Artist := Artist overlay\<rparr> else existing);
          existing = (if Album overlay \<noteq> ''''
                      then existing\<lparr>Album := Album overlay\<rparr> else existing);
          existing = (if AlbumArtist overlay \<noteq> ''''
                      then existing\<lparr>AlbumArtist := AlbumArtist overlay\<rparr> else existing);
          existing = (if Genre overlay \<noteq> ''''
                      then existing\<lparr>Genre := Genre overlay\<rparr> else existing);
          existing = (if Comment overlay \<noteq> ''''
                      then existing\<lparr>Comment := Comment overlay\<rparr> else existing);
          existing = (if Composer overlay \<noteq> ''''
                      then existing\<lparr>Composer := Composer overlay\<rparr> else existing);
          existing = (if Lyrics overlay \<noteq> ''''
                      then existing\<lparr>Lyrics := Lyrics overlay\<rparr> else existing);
          existing = (if CoverImage overlay \<noteq> ''''
                      then existing\<lparr>CoverImage := CoverImage overlay, HasCover := True\<rparr>
                      else existing);
          existing = (if TrackNumber overlay > 0
                      then existing\<lparr>TrackNumber := TrackNumber overlay\<rparr> else existing);
          existing = (if DiscNumber overlay > 0
                      then existing\<lparr>DiscNumber := DiscNumber overlay\<rparr> else existing);
          existing = (if Year overlay > 0
                      then existing\<lparr>Year := Year overlay\<rparr> else existing)
      in existing)"

text \<open>\<open>ApplyMetadata\<close> returns the record and the manager after the call.\<close>

definition ApplyMetadata :: "Manager \<Rightarrow> string \<Rightarrow> TrackMetadata \<Rightarrow> TrackMetadata \<times> Manager" where
  "ApplyMetadata m path overlay =
     (case tracks m path of
        None \<Rightarrow>
          (overlay, m\<lparr>tracks := (tracks m)(path \<mapsto> overlay), order := order m @ [path]\<rparr>)
      | Some existing \<Rightarrow>
          (let existing = applyOverlay existing overlay
           in (existing, m\<lparr>tracks := (tracks m)(path \<mapsto> existing)\<rparr>)))"


section \<open>Notions used in the statements\<close>

text \<open>
  The index invariant: the order sequence and the map hold the same paths, and no path
  occurs twice in the order sequence.
\<close>

definition index_inv :: "Manager \<Rightarrow> bool" where
  "index_inv m = (set (order m) = dom (tracks m) \<and> distinct (order m))"

text \<open>The elements of a list that are not in \<open>seen\<close>, each at its first occurrence.\<close>

fun firstOccurrences :: "'a set \<Rightarrow> 'a list \<Rightarrow> 'a list" where
  "firstOccurrences seen [] = []"
| "firstOccurrences seen (p # ps) =
     (if p \<in> seen then firstOccurrences seen ps
      else p # firstOccurrences (insert p seen) ps)"

text \<open>
  A result is \<open>ok\<close> when it carries no error; \<open>errline\<close> is the line that \<open>loadAndMerge\<close>
  reports for a failed one. Results are sound for a file system when each carries the
  error of opening its path, and the record of an \<open>ok\<close> one has the path of its job.
\<close>

definition ok :: "res \<Rightarrow> bool" where
  "ok r = (res_err r = None)"

definition errline :: "res \<Rightarrow> string" where
  "errline r = res_path r @ '': '' @ Message (the (res_err r))"

definition sound_results :: "fs \<Rightarrow> res list \<Rightarrow> bool" where
  "sound_results s rs =
     (\<forall>r \<in> set rs. res_err r = open_err s (res_path r) \<and>
                    (res_err r = None \<longrightarrow> FilePath (res_track r) = res_path r))"

text \<open>
  The records that a batch merges into the index: the workers' results in the order in
  which they arrived, collected and put back into the order of the jobs.
\<close>

definition batch_tracks :: "env \<Rightarrow> (res list \<Rightarrow> res list) \<Rightarrow> fs \<Rightarrow> Manager \<Rightarrow> string list
    \<Rightarrow> TrackMetadata list" where
  "batch_tracks e arrival s m paths =
     reorder (filterNew m paths)
       (fst (collect (arrival (fst (runWorkers e s (filterNew m paths))))))"

section \<open>A concrete platform and disk for the examples\<close>

text \<open>
  The examples run on a Unix platform with ASCII paths. \<open>unix_Base\<close> and \<open>unix_Ext\<close>
  follow \<open>filepath.Base\<close> and \<open>filepath.Ext\<close> with the separator \<open>/\<close>; \<open>ascii_ToUpper\<close> and
  \<open>ascii_ToLower\<close> are the case mappings on ASCII letters. The hash and the JSON codec of
  the examples are stand-ins: \<open>example_sha1_hex\<close> is an injective function in place of
  SHA-1, and the codecs know the values listed in their tables.
\<close>

definition unix_Base :: "string \<Rightarrow> string" where
  "unix_Base path =
     (if path = '''' then ''.''
      else (let stripped = dropWhile (\<lambda>c. c = CHR ''/'') (rev path);
                name = rev (takeWhile (\<lambda>c. c \<noteq> CHR ''/'') stripped)
            in if name = '''' then ''/'' else name))"

definition unix_Ext :: "string \<Rightarrow> string" where
  "unix_Ext path =
     (let name = takeWhile (\<lambda>c. c \<noteq> CHR ''/'') (rev path)
      in if CHR ''.'' \<in> set name
         then CHR ''.'' # rev (takeWhile (\<lambda>c. c \<noteq> CHR ''.'') name)
         else '''')"

definition unix_Dir :: "string \<Rightarrow> string" where
  "unix_Dir path =
     (let d = rev (dropWhile (\<lambda>c. c = CHR ''/'') (dropWhile (\<lambda>c. c \<noteq> CHR ''/'') (rev path)))
      in if d = '''' then (if take 1 path = ''/'' then ''/'' else ''.'') else d)"

fun unix_Join :: "string list \<Rightarrow> string" where
  "unix_Join [] = ''''"
| "unix_Join [x] = x"
| "unix_Join (x # y # ys) = x @ ''/'' @ unix_Join (y # ys)"

definition ascii_ToUpper :: "string \<Rightarrow> string" where
  "ascii_ToUpper s =
     map (\<lambda>c. let n = (of_char c :: nat)
               in if 97 \<le> n \<and> n \<le> 122 then char_of (n - 32) else c) s"

definition ascii_ToLower :: "string \<Rightarrow> string" where
  "ascii_ToLower s =
     map (\<lambda>c. let n = (of_char c :: nat)
               in if 65 \<le> n \<and> n \<le> 90 then char_of (n + 32) else c) s"

definition example_sha1_hex :: "string \<Rightarrow> string" where
  "example_sha1_hex key = map (\<lambda>c. if c = CHR ''/'' then CHR ''_'' else c) key"

definition example_edit :: TrackMetadata where
  "example_edit =
     zeroTrack\<lparr>FilePath := ''/music/a.flac'', FileName := ''stale.flac'',
               Title := ''Edited'', Year := 1999\<rparr>"

definition example_track_json :: "(TrackMetadata \<times> string) list" where
  "example_track_json = [(example_edit, ''{title:Edited,year:1999}'')]"

definition example_library_json :: "(string list \<times> string) list" where
  "example_library_json =
     [([''/music/a.flac''], ''{files:[/music/a.flac]}''),
      ([''/music/a.flac'', ''/music/c.flac''], ''{files:[/music/a.flac,/music/c.flac]}''),
      ([''/music/a.flac'', ''/music/b.flac'', ''/music/c.flac''],
       ''{files:[/music/a.flac,/music/b.flac,/music/c.flac]}'')]"

definition example_env :: env where
  "example_env =
     \<lparr>UserConfigDir = Inr ''/home/u/.config'',
      GOOS = ''linux'',
      filepath_Base = unix_Base,
      filepath_Ext = unix_Ext,
      filepath_Dir = unix_Dir,
      filepath_Clean = (\<lambda>p. p),
      filepath_Abs = (\<lambda>p. Inr p),
      filepath_Join = unix_Join,
      ToUpper = ascii_ToUpper,
      ToLower = ascii_ToLower,
      sha1_hex = example_sha1_hex,
      base64_EncodeToString = (\<lambda>d. d),
      json_Marshal =
        (\<lambda>md. case map_of example_track_json md of
                 Some data \<Rightarrow> Inr data
               | None \<Rightarrow> Inl (Error False ''json: unsupported value'')),
      json_Unmarshal =
        (\<lambda>data. case map_of (map (\<lambda>(md, d). (d, md)) example_track_json) data of
                   Some md \<Rightarrow> Inr md
                 | None \<Rightarrow> Inl (Error False ''json: invalid input'')),
      json_Marshal_Library =
        (\<lambda>lib. case map_of example_library_json (Files lib) of
                  Some data \<Rightarrow> Inr data
                | None \<Rightarrow> Inl (Error False ''json: unsupported value'')),
      json_Unmarshal_Library =
        (\<lambda>data. case map_of (map (\<lambda>(fl, d). (d, fl)) example_library_json) data of
                   Some fl \<Rightarrow> Inr \<lparr>Files = fl\<rparr>
                 | None \<Rightarrow> Inl (Error False ''json: invalid input'')),
      id3_write = (\<lambda>s md. (None, s))\<rparr>"

text \<open>
  The example disk: three audio files can be opened, none of them carries a tag that
  \<open>tag.ReadFrom\<close> understands, \<open>/music/missing.flac\<close> and every other path do not
  exist, and no sidecar or library file has been written yet.
\<close>

definition example_fs :: fs where
  "example_fs =
     \<lparr>files = (\<lambda>p. Inl (Error True (''open '' @ p @ '': no such file or directory''))),
      open_err =
        (\<lambda>p. if p \<in> {''/music/a.flac'', ''/music/b.flac'', ''/music/c.flac''} then None
              else Some (Error True (''open '' @ p @ '': no such file or directory''))),
      tag_of = (\<lambda>p. Inl (Error False ''no tags found'')),
      props_of = (\<lambda>p. Inr \<lparr>props_Bitrate = 0, props_SampleRate = 0\<rparr>),
      mkdir_err = (\<lambda>p. None),
      write_err = (\<lambda>p. None),
      remove_err = (\<lambda>p. None)\<rparr>"

text \<open>The same disk, where the library file cannot be written.\<close>

definition example_readonly_fs :: fs where
  "example_readonly_fs =
     example_fs\<lparr>write_err :=
       (\<lambda>p. if p = ''/home/u/.config/kitty_library.json''
             then Some (Error False ''read-only file system'') else None)\<rparr>"

text \<open>The results arrive in the reverse of the order in which the jobs were sent.\<close>

definition example_arrival :: "res list \<Rightarrow> res list" where
  "example_arrival rs = rev rs"

section \<open>Strings in the JSON codec of Go\<close>










section \<open>The merge policy, field by field\<close>

lemma TrimSpace_empty: "TrimSpace '''' = ''''"
  by code_simp

lemma TrimSpace_one_space: "TrimSpace '' '' = ''''"
  by code_simp

lemma TrimSpace_X: "TrimSpace ''X'' \<noteq> ''''"
  by code_simp

lemma TrimSpace_Y: "TrimSpace ''Y'' \<noteq> ''''"
  by code_simp

text \<open>
  A field selector goes through a \<open>let\<close> and through an \<open>if\<close>. Pushing the selector to the
  end of a chain of guarded assignments first keeps the terms small.
\<close>

lemma sel_Let: "f (Let a g) = Let a (\<lambda>x. f (g x))"
  by simp

lemmas sel_let =
  sel_Let [of FilePath] sel_Let [of FileName] sel_Let [of Title]
  sel_Let [of Artist] sel_Let [of Album] sel_Let [of AlbumArtist]
  sel_Let [of TrackNumber] sel_Let [of DiscNumber] sel_Let [of Genre]
  sel_Let [of Year] sel_Let [of Comment] sel_Let [of Composer]
  sel_Let [of Lyrics] sel_Let [of HasCover] sel_Let [of CoverImage]
  sel_Let [of Format] sel_Let [of Bitrate] sel_Let [of SampleRate]

lemmas sel_if =
  if_distrib [of FilePath] if_distrib [of FileName] if_distrib [of Title]
  if_distrib [of Artist] if_distrib [of Album] if_distrib [of AlbumArtist]
  if_distrib [of TrackNumber] if_distrib [of DiscNumber] if_distrib [of Genre]
  if_distrib [of Year] if_distrib [of Comment] if_distrib [of Composer]
  if_distrib [of Lyrics] if_distrib [of HasCover] if_distrib [of CoverImage]
  if_distrib [of Format] if_distrib [of Bitrate] if_distrib [of SampleRate]

lemma merge_text:
  "Title (mergeMetadata b ov) = (if TrimSpace (Title ov) \<noteq> '''' then Title ov else Title b)"
  "Artist (mergeMetadata b ov) = (if TrimSpace (Artist ov) \<noteq> '''' then Artist ov else Artist b)"
  "Album (mergeMetadata b ov) = (if TrimSpace (Album ov) \<noteq> '''' then Album ov else Album b)"
  "AlbumArtist (mergeMetadata b ov) =
     (if TrimSpace (AlbumArtist ov) \<noteq> '''' then AlbumArtist ov else AlbumArtist b)"
  "Genre (mergeMetadata b ov) = (if TrimSpace (Genre ov) \<noteq> '''' then Genre ov else Genre b)"
  "Comment (mergeMetadata b ov) =
     (if TrimSpace (Comment ov) \<noteq> '''' then Comment ov else Comment b)"
  "Composer (mergeMetadata b ov) =
     (if TrimSpace (Composer ov) \<noteq> '''' then Composer ov else Composer b)"
  "Lyrics (mergeMetadata b ov) = (if TrimSpace (Lyrics ov) \<noteq> '''' then Lyrics ov else Lyrics b)"
  "Format (mergeMetadata b ov) = (if TrimSpace (Format ov) \<noteq> '''' then Format ov else Format b)"
  unfolding mergeMetadata_def
  by (simp only: sel_let,
      simp add: sel_if Let_def cong del: if_weak_cong split del: if_split)+

lemma merge_numeric:
  "TrackNumber (mergeMetadata b ov) =
     (if 0 < TrackNumber ov then TrackNumber ov else TrackNumber b)"
  "DiscNumber (mergeMetadata b ov) =
     (if 0 < DiscNumber ov then DiscNumber ov else DiscNumber b)"
  "Year (mergeMetadata b ov) = (if 0 < Year ov then Year ov else Year b)"
  "Bitrate (mergeMetadata b ov) = (if 0 < Bitrate ov then Bitrate ov else Bitrate b)"
  "SampleRate (mergeMetadata b ov) =
     (if 0 < SampleRate ov then SampleRate ov else SampleRate b)"
  unfolding mergeMetadata_def
  by (simp only: sel_let,
      simp add: sel_if Let_def cong del: if_weak_cong split del: if_split)+

lemma merge_cover:
  "CoverImage (mergeMetadata b ov) =
     (if HasCover ov \<and> TrimSpace (CoverImage ov) \<noteq> '''' then CoverImage ov
      else CoverImage b)"
  "HasCover (mergeMetadata b ov) =
     (if HasCover ov \<and> TrimSpace (CoverImage ov) \<noteq> '''' then True else HasCover b)"
  unfolding mergeMetadata_def
  by (simp only: sel_let,
      simp add: sel_if Let_def cong del: if_weak_cong split del: if_split)+

lemma merge_path:
  "FilePath (mergeMetadata b ov) = FilePath b"
  "FileName (mergeMetadata b ov) = FileName b"
  unfolding mergeMetadata_def
  by (simp only: sel_let,
      simp add: sel_if Let_def cong del: if_weak_cong split del: if_split)+

lemmas merge_fields = merge_path merge_text merge_numeric merge_cover

lemma apply_text:
  "Title (applyOverlay b ov) = (if Title ov \<noteq> '''' then Title ov else Title b)"
  "Artist (applyOverlay b ov) = (if Artist ov \<noteq> '''' then Artist ov else Artist b)"
  "Album (applyOverlay b ov) = (if Album ov \<noteq> '''' then Album ov else Album b)"
  "AlbumArtist (applyOverlay b ov) =
     (if AlbumArtist ov \<noteq> '''' then AlbumArtist ov else AlbumArtist b)"
  "Genre (applyOverlay b ov) = (if Genre ov \<noteq> '''' then Genre ov else Genre b)"
  "Comment (applyOverlay b ov) = (if Comment ov \<noteq> '''' then Comment ov else Comment b)"
  "Composer (applyOverlay b ov) = (if Composer ov \<noteq> '''' then Composer ov else Composer b)"
  "Lyrics (applyOverlay b ov) = (if Lyrics ov \<noteq> '''' then Lyrics ov else Lyrics b)"
  "Format (applyOverlay b ov) = Format b"
  unfolding applyOverlay_def
  by (simp only: sel_let,
      simp add: sel_if Let_def cong del: if_weak_cong split del: if_split)+

lemma apply_numeric:
  "TrackNumber (applyOverlay b ov) =
     (if 0 < TrackNumber ov then TrackNumber ov else TrackNumber b)"
  "DiscNumber (applyOverlay b ov) =
     (if 0 < DiscNumber ov then DiscNumber ov else DiscNumber b)"
  "Year (applyOverlay b ov) = (if 0 < Year ov then Year ov else Year b)"
  "Bitrate (applyOverlay b ov) = Bitrate b"
  "SampleRate (applyOverlay b ov) = SampleRate b"
  unfolding applyOverlay_def
  by (simp only: sel_let,
      simp add: sel_if Let_def cong del: if_weak_cong split del: if_split)+

lemma apply_cover:
  "CoverImage (applyOverlay b ov) =
     (if CoverImage ov \<noteq> '''' then CoverImage ov else CoverImage b)"
  "HasCover (applyOverlay b ov) = (if CoverImage ov \<noteq> '''' then True else HasCover b)"
  unfolding applyOverlay_def
  by (simp only: sel_let,
      simp add: sel_if Let_def cong del: if_weak_cong split del: if_split)+

lemma apply_path:
  "FilePath (applyOverlay b ov) = FilePath b"
  "FileName (applyOverlay b ov) = FileName b"
  unfolding applyOverlay_def
  by (simp only: sel_let,
      simp add: sel_if Let_def cong del: if_weak_cong split del: if_split)+

lemmas apply_fields = apply_path apply_text apply_numeric apply_cover


section \<open>Claims about the merge policy\<close>

text \<open>
  C3, as amended. \<open>mergeMetadata\<close> keeps the base record's file path and file name. It
  takes a text field (title, artist, album, album artist, genre, comment, composer,
  lyrics, format) from the overlay exactly when the overlay's value still has a character
  left after white space is trimmed, and a numeric field (track number, disc number, year,
  bitrate, sample rate) exactly when the overlay's value is strictly positive; otherwise
  the base value stays. The cover image is taken, and has-cover set, exactly when the
  overlay has has-cover true and a cover image that is not blank. Merging
  \<open>{title: "X", artist: ""}\<close> with \<open>{title: "", artist: "Y"}\<close> gives
  \<open>{title: "X", artist: "Y"}\<close>.
\<close>

theorem mergeMetadata_fieldwise:
  "FilePath (mergeMetadata b ov) = FilePath b \<and>
   FileName (mergeMetadata b ov) = FileName b \<and>
   Title (mergeMetadata b ov) = (if TrimSpace (Title ov) \<noteq> '''' then Title ov else Title b) \<and>
   Artist (mergeMetadata b ov) = (if TrimSpace (Artist ov) \<noteq> '''' then Artist ov else Artist b) \<and>
   Album (mergeMetadata b ov) = (if TrimSpace (Album ov) \<noteq> '''' then Album ov else Album b) \<and>
   AlbumArtist (mergeMetadata b ov) =
     (if TrimSpace (AlbumArtist ov) \<noteq> '''' then AlbumArtist ov else AlbumArtist b) \<and>
   Genre (mergeMetadata b ov) = (if TrimSpace (Genre ov) \<noteq> '''' then Genre ov else Genre b) \<and>
   Comment (mergeMetadata b ov) =
     (if TrimSpace (Comment ov) \<noteq> '''' then Comment ov else Comment b) \<and>
   Composer (mergeMetadata b ov) =
     (if TrimSpace (Composer ov) \<noteq> '''' then Composer ov else Composer b) \<and>
   Lyrics (mergeMetadata b ov) = (if TrimSpace (Lyrics ov) \<noteq> '''' then Lyrics ov else Lyrics b) \<and>
   Format (mergeMetadata b ov) = (if TrimSpace (Format ov) \<noteq> '''' then Format ov else Format b) \<and>
   TrackNumber (mergeMetadata b ov) =
     (if 0 < TrackNumber ov then TrackNumber ov else TrackNumber b) \<and>
   DiscNumber (mergeMetadata b ov) =
     (if 0 < DiscNumber ov then DiscNumber ov else DiscNumber b) \<and>
   Year (mergeMetadata b ov) = (if 0 < Year ov then Year ov else Year b) \<and>
   Bitrate (mergeMetadata b ov) = (if 0 < Bitrate ov then Bitrate ov else Bitrate b) \<and>
   SampleRate (mergeMetadata b ov) =
     (if 0 < SampleRate ov then SampleRate ov else SampleRate b) \<and>
   CoverImage (mergeMetadata b ov) =
     (if HasCover ov \<and> TrimSpace (CoverImage ov) \<noteq> '''' then CoverImage ov
      else CoverImage b) \<and>
   HasCover (mergeMetadata b ov) =
     (if HasCover ov \<and> TrimSpace (CoverImage ov) \<noteq> '''' then True else HasCover b) \<and>
   mergeMetadata (zeroTrack\<lparr>Title := ''X'', Artist := ''''\<rparr>)
       (zeroTrack\<lparr>Title := '''', Artist := ''Y''\<rparr>)
     = zeroTrack\<lparr>Title := ''X'', Artist := ''Y''\<rparr>"
proof -
  have example:
    "mergeMetadata (zeroTrack\<lparr>Title := ''X'', Artist := ''''\<rparr>)
         (zeroTrack\<lparr>Title := '''', Artist := ''Y''\<rparr>)
       = zeroTrack\<lparr>Title := ''X'', Artist := ''Y''\<rparr>"
    by (rule TrackMetadata.equality)
       (simp_all add: merge_fields zeroTrack_def TrimSpace_empty TrimSpace_Y)
  show ?thesis
    by (simp only: merge_fields example simp_thms)
qed

text \<open>
  C3 as it is written fails: an overlay title of one space is not empty, and the merge
  keeps the base title \<open>X\<close>.
\<close>

theorem mergeMetadata_blank_title_counterexample:
  "Title (zeroTrack\<lparr>Title := '' ''\<rparr>) \<noteq> '''' \<and>
   Title (mergeMetadata (zeroTrack\<lparr>Title := ''X''\<rparr>) (zeroTrack\<lparr>Title := '' ''\<rparr>))
     = ''X''"
  by (simp add: merge_text TrimSpace_one_space)


section \<open>Claims about reading one track\<close>

lemma minimal_fields:
  "FilePath (minimalMetadata e path) = path"
  "FileName (minimalMetadata e path) = filepath_Base e path"
  "Title (minimalMetadata e path) = trimExt e (filepath_Base e path)"
  "Artist (minimalMetadata e path) = ''Unknown Artist''"
  "Album (minimalMetadata e path) = ''Unknown Album''"
  "Format (minimalMetadata e path) = TrimPrefix (ToUpper e (filepath_Ext e path)) ''.''"
  by (simp_all add: minimalMetadata_def trimExt_def Let_def)

text \<open>
  C5, as amended. For every path whose file can be opened, when reading the tag fails
  \<open>LoadMetadata\<close> returns no error and a record: the minimal record, with the sidecar
  record merged on top when a sidecar can be read. The minimal record has the file name
  without its extension as title, the artist \<open>Unknown Artist\<close>, the album
  \<open>Unknown Album\<close> and the upper-cased extension without its dot as format.
\<close>

theorem LoadMetadata_fallback:
  assumes "open_err s path = None" and "tag_of s path = Inl tagErr"
  shows "fst (LoadMetadata e s path) =
           Inr (case fst (readSidecar e s path) of
                  Inr side \<Rightarrow> mergeMetadata (minimalMetadata e path) side
                | Inl sideErr \<Rightarrow> minimalMetadata e path) \<and>
         Title (minimalMetadata e path) = trimExt e (filepath_Base e path) \<and>
         Artist (minimalMetadata e path) = ''Unknown Artist'' \<and>
         Album (minimalMetadata e path) = ''Unknown Album'' \<and>
         Format (minimalMetadata e path) = TrimPrefix (ToUpper e (filepath_Ext e path)) ''.''"
  using assms
  by (simp add: LoadMetadata_def minimal_fields Let_def split: prod.splits sum.splits)

text \<open>
  The theorem at work: \<open>/music/a.flac\<close> opens, its tag cannot be read, and a sidecar with
  the title \<open>Edited\<close> and the year 1999 was saved before. The record returned is the
  minimal one with these two fields from the sidecar.
\<close>

theorem LoadMetadata_fallback_witness:
  "open_err (snd (writeSidecar example_env example_fs example_edit)) ''/music/a.flac'' = None \<and>
   tag_of (snd (writeSidecar example_env example_fs example_edit)) ''/music/a.flac''
     = Inl (Error False ''no tags found'') \<and>
   fst (LoadMetadata example_env (snd (writeSidecar example_env example_fs example_edit))
          ''/music/a.flac'') =
     Inr (zeroTrack\<lparr>FilePath := ''/music/a.flac'', FileName := ''a.flac'',
                   Title := ''Edited'', Artist := ''Unknown Artist'',
                   Album := ''Unknown Album'', Year := 1999, Format := ''FLAC''\<rparr>)"
proof -
  let ?s = "snd (writeSidecar example_env example_fs example_edit)"
  have h1: "open_err ?s ''/music/a.flac'' = None"
    by code_simp
  have h2: "tag_of ?s ''/music/a.flac'' = Inl (Error False ''no tags found'')"
    by code_simp
  have merged:
    "(case fst (readSidecar example_env ?s ''/music/a.flac'') of
        Inr side \<Rightarrow> mergeMetadata (minimalMetadata example_env ''/music/a.flac'') side
      | Inl sideErr \<Rightarrow> minimalMetadata example_env ''/music/a.flac'') =
     zeroTrack\<lparr>FilePath := ''/music/a.flac'', FileName := ''a.flac'',
               Title := ''Edited'', Artist := ''Unknown Artist'',
               Album := ''Unknown Album'', Year := 1999, Format := ''FLAC''\<rparr>"
    by code_simp
  from LoadMetadata_fallback [OF h1 h2, of example_env] merged h1 h2
  show ?thesis by simp
qed

text \<open>
  C5 as it is written fails: \<open>/music/missing.flac\<close> cannot be opened, and \<open>LoadMetadata\<close>
  returns the error of \<open>os.Open\<close> and no record.
\<close>

theorem LoadMetadata_open_failure_counterexample:
  "fst (LoadMetadata example_env example_fs ''/music/missing.flac'') =
     Inl (Error True ''open /music/missing.flac: no such file or directory'')"
  by (simp add: LoadMetadata_def example_fs_def)

section \<open>Claims about overlays and the persisted path list\<close>

text \<open>
  What \<open>ApplyMetadata\<close> and \<open>LoadLibrary\<close> do in general: an absent path gets the
  overlay itself; a present one gets \<open>applyOverlay\<close>, which agrees with \<open>mergeMetadata\<close>
  on overlays without blank text, without a cover that lacks has-cover, and without
  format, bitrate or sample rate. \<open>SaveLibrary\<close> writes to the current name only, and
  \<open>LoadLibrary\<close> reads the legacy name only after a read error other than not-exist.
\<close>

lemma ApplyMetadata_absent:
  "tracks m path = None \<Longrightarrow>
   ApplyMetadata m path overlay
     = (overlay, m\<lparr>tracks := (tracks m)(path \<mapsto> overlay), order := order m @ [path]\<rparr>)"
  by (simp add: ApplyMetadata_def)

lemma ApplyMetadata_present:
  "tracks m path = Some existing \<Longrightarrow>
   ApplyMetadata m path overlay
     = (applyOverlay existing overlay,
        m\<lparr>tracks := (tracks m)(path \<mapsto> applyOverlay existing overlay)\<rparr>)"
  by (simp add: ApplyMetadata_def Let_def)

lemma applyOverlay_agrees_with_merge:
  assumes "Title ov = '''' \<or> TrimSpace (Title ov) \<noteq> ''''"
    and "Artist ov = '''' \<or> TrimSpace (Artist ov) \<noteq> ''''"
    and "Album ov = '''' \<or> TrimSpace (Album ov) \<noteq> ''''"
    and "AlbumArtist ov = '''' \<or> TrimSpace (AlbumArtist ov) \<noteq> ''''"
    and "Genre ov = '''' \<or> TrimSpace (Genre ov) \<noteq> ''''"
    and "Comment ov = '''' \<or> TrimSpace (Comment ov) \<noteq> ''''"
    and "Composer ov = '''' \<or> TrimSpace (Composer ov) \<noteq> ''''"
    and "Lyrics ov = '''' \<or> TrimSpace (Lyrics ov) \<noteq> ''''"
    and "CoverImage ov = '''' \<or> HasCover ov \<and> TrimSpace (CoverImage ov) \<noteq> ''''"
    and "TrimSpace (Format ov) = ''''" and "Bitrate ov \<le> 0" and "SampleRate ov \<le> 0"
  shows "applyOverlay b ov = mergeMetadata b ov"
  using assms
  by (intro TrackMetadata.equality)
     (auto simp: apply_fields merge_fields TrimSpace_empty)

lemma SaveLibrary_writes_current_name:
  "p \<noteq> GetConfigPath e \<Longrightarrow> files (snd (SaveLibrary e s fileList)) p = files s p"
  by (simp add: SaveLibrary_def WriteFile_def Let_def split: sum.splits option.splits)

lemma LoadLibrary_fallback_on_other_errors:
  "files s (GetConfigPath e) = Inl err \<Longrightarrow> \<not> IsNotExist err \<Longrightarrow>
   getLegacyConfigPath e \<noteq> GetConfigPath e \<Longrightarrow> files s (getLegacyConfigPath e) = Inr alt \<Longrightarrow>
   LoadLibrary e s = decodeLibrary e alt"
  by (simp add: LoadLibrary_def Let_def)

lemma LoadLibrary_missing_file:
  "files s (GetConfigPath e) = Inl err \<Longrightarrow> IsNotExist err \<Longrightarrow> LoadLibrary e s = Inr []"
  by (simp add: LoadLibrary_def Let_def)

text \<open>
  C6, at the failing input. The index holds the minimal record of \<open>/music/a.flac\<close>, and
  the overlay carries only a bitrate of 320, as the download path of the application
  builds it. \<open>ApplyMetadata\<close> returns the existing record unchanged, where \<open>mergeMetadata\<close>
  on the same two records sets the bitrate.
\<close>

theorem ApplyMetadata_bitrate_overlay_ignored:
  "fst (ApplyMetadata
          \<lparr>tracks = [''/music/a.flac'' \<mapsto> minimalMetadata example_env ''/music/a.flac''],
           order = [''/music/a.flac'']\<rparr>
          ''/music/a.flac''
          (zeroTrack\<lparr>FilePath := ''/music/a.flac'', FileName := ''a.flac'', Bitrate := 320\<rparr>))
     = minimalMetadata example_env ''/music/a.flac'' \<and>
   mergeMetadata (minimalMetadata example_env ''/music/a.flac'')
       (zeroTrack\<lparr>FilePath := ''/music/a.flac'', FileName := ''a.flac'', Bitrate := 320\<rparr>)
     = (minimalMetadata example_env ''/music/a.flac'')\<lparr>Bitrate := 320\<rparr>"
  by code_simp

text \<open>
  C10, at the failing input. The file with the current name does not exist and the file
  with the legacy name holds the path list \<open>[/music/a.flac]\<close>. \<open>LoadLibrary\<close> returns the
  empty list without reading the legacy file.
\<close>

theorem LoadLibrary_skips_legacy_when_missing:
  "files (example_fs\<lparr>files := (files example_fs)
            (''/home/u/.config/metago_library.json'' := Inr ''{files:[/music/a.flac]}'')\<rparr>)
      (GetConfigPath example_env)
     = Inl (Error True ''open /home/u/.config/kitty_library.json: no such file or directory'') \<and>
   files (example_fs\<lparr>files := (files example_fs)
            (''/home/u/.config/metago_library.json'' := Inr ''{files:[/music/a.flac]}'')\<rparr>)
      (getLegacyConfigPath example_env)
     = Inr ''{files:[/music/a.flac]}'' \<and>
   decodeLibrary example_env ''{files:[/music/a.flac]}'' = Inr [''/music/a.flac''] \<and>
   LoadLibrary example_env
      (example_fs\<lparr>files := (files example_fs)
            (''/home/u/.config/metago_library.json'' := Inr ''{files:[/music/a.flac]}'')\<rparr>)
     = Inr []"
  by code_simp


section \<open>The batch, step by step\<close>


lemma firstOccurrences_set: "set (firstOccurrences seen ps) = set ps - seen"
  by (induction ps arbitrary: seen) auto

lemma firstOccurrences_distinct: "distinct (firstOccurrences seen ps)"
  by (induction ps arbitrary: seen) (auto simp: firstOccurrences_set)

lemma firstOccurrences_subseq: "subseq (firstOccurrences seen ps) ps"
  by (induction ps arbitrary: seen) auto

lemma firstOccurrences_id:
  "distinct ps \<Longrightarrow> set ps \<inter> seen = {} \<Longrightarrow> firstOccurrences seen ps = ps"
  by (induction ps arbitrary: seen) auto

lemma filterNew_fold:
  "foldl (\<lambda>(seen, unique) p.
            if p \<in> seen then (seen, unique)
            else (insert p seen, if tracks m p = None then unique @ [p] else unique))
     (seen, unique) paths
   = (seen \<union> set paths,
      unique @ filter (\<lambda>p. tracks m p = None) (firstOccurrences seen paths))"
  by (induction paths arbitrary: seen unique) auto

lemma filterNew_eq:
  "filterNew m paths = filter (\<lambda>p. tracks m p = None) (firstOccurrences {} paths)"
  by (simp add: filterNew_def filterNew_fold)

lemma filterNew_distinct: "distinct (filterNew m paths)"
  by (simp add: filterNew_eq firstOccurrences_distinct)

lemma filterNew_set: "set (filterNew m paths) = set paths - dom (tracks m)"
  by (auto simp: filterNew_eq firstOccurrences_set)

lemma filterNew_subseq: "subseq (filterNew m paths) paths"
  unfolding filterNew_eq
  by (rule subseq_order.trans [OF subseq_filter_left firstOccurrences_subseq])

lemma filterNew_id:
  "distinct paths \<Longrightarrow> set paths \<inter> dom (tracks m) = {} \<Longrightarrow> filterNew m paths = paths"
  by (auto simp: filterNew_eq firstOccurrences_id filter_id_conv)

lemma fold_map_filter:
  "foldl (\<lambda>acc p. case f p of Some t \<Rightarrow> acc @ [t] | None \<Rightarrow> acc) acc0 ps
     = acc0 @ List.map_filter f ps"
  by (induction ps arbitrary: acc0) (auto split: option.splits)

lemma snapshotLocked_eq: "snapshotLocked m = List.map_filter (tracks m) (order m)"
  by (simp add: snapshotLocked_def fold_map_filter)


lemma WriteFile_open_err: "open_err (snd (WriteFile s p d)) = open_err s"
  by (simp add: WriteFile_def split: option.splits)

lemma Remove_open_err: "open_err (snd (Remove s p)) = open_err s"
  by (simp add: Remove_def split: option.splits sum.splits)

lemma writeSidecar_open_err: "open_err (snd (writeSidecar e s md)) = open_err s"
  by (auto simp: writeSidecar_def Let_def WriteFile_def Remove_def
        split: sum.splits option.splits)

lemma readSidecar_open_err: "open_err (snd (readSidecar e s p)) = open_err s"
  by (simp add: readSidecar_def Let_def writeSidecar_open_err split: sum.splits)

lemma LoadMetadata_open_err: "open_err (snd (LoadMetadata e s p)) = open_err s"
proof -
  obtain x s1 where R: "readSidecar e s p = (x, s1)"
    by (cases "readSidecar e s p")
  with readSidecar_open_err [of e s p] have "open_err s1 = open_err s"
    by simp
  with R show ?thesis
    by (simp add: LoadMetadata_def Let_def split: sum.splits option.splits)
qed

lemma embedPicture_FilePath: "FilePath (embedPicture e pic md) = FilePath md"
  by (simp add: embedPicture_def Let_def split: option.splits)

lemma tagRecord_FilePath: "FilePath (tagRecord e p m) = p"
  by (simp add: tagRecord_def)

lemma LoadMetadata_result:
  "fst (LoadMetadata e s p) =
     (case open_err s p of
        Some err \<Rightarrow> Inl err
      | None \<Rightarrow> Inr (projr (fst (LoadMetadata e s p))))"
  by (simp add: LoadMetadata_def Let_def split: sum.splits option.splits prod.splits)

lemma LoadMetadata_FilePath:
  "fst (LoadMetadata e s p) = Inr md \<Longrightarrow> FilePath md = p"
  by (auto simp: LoadMetadata_def Let_def merge_path minimal_fields embedPicture_FilePath
        tagRecord_FilePath split: sum.splits option.splits prod.splits)

lemma worker_facts:
  assumes "worker e s p = (r, s1)"
  shows "res_path r = p" and "res_err r = open_err s p"
    and "res_err r = None \<Longrightarrow> FilePath (res_track r) = p"
    and "open_err s1 = open_err s"
proof -
  obtain x s' where L: "LoadMetadata e s p = (x, s')"
    by (cases "LoadMetadata e s p")
  have s': "s1 = s'" using assms L by (auto simp: worker_def split: sum.splits)
  show "res_path r = p" using assms L by (auto simp: worker_def split: sum.splits)
  show "res_err r = open_err s p"
    using assms L LoadMetadata_result [of e s p]
    by (auto simp: worker_def split: sum.splits option.splits)
  show "res_err r = None \<Longrightarrow> FilePath (res_track r) = p"
    using assms L LoadMetadata_FilePath [of e s p]
    by (auto simp: worker_def split: sum.splits)
  show "open_err s1 = open_err s"
    using LoadMetadata_open_err [of e s p] L s' by simp
qed

lemma runWorkers_fold:
  assumes "foldl (\<lambda>(rs, s0) p. case worker e s0 p of (r, s1) \<Rightarrow> (rs @ [r], s1)) (rs0, s) ps
             = (rs, s')"
  shows "\<exists>rs1. rs = rs0 @ rs1 \<and> map res_path rs1 = ps \<and> sound_results s rs1 \<and>
               open_err s' = open_err s"
  using assms
proof (induction ps arbitrary: rs0 s)
  case Nil
  then show ?case by (simp add: sound_results_def)
next
  case (Cons p ps)
  obtain r s1 where W: "worker e s p = (r, s1)"
    by (cases "worker e s p")
  from Cons.prems W
  have "foldl (\<lambda>(rs, s0) p. case worker e s0 p of (r, s1) \<Rightarrow> (rs @ [r], s1)) (rs0 @ [r], s1) ps
          = (rs, s')"
    by simp
  from Cons.IH [OF this] obtain rs1 where
    rs1: "rs = (rs0 @ [r]) @ rs1" "map res_path rs1 = ps" "sound_results s1 rs1"
      "open_err s' = open_err s1"
    by blast
  note wf = worker_facts [OF W]
  have "sound_results s (r # rs1)"
    using rs1(3) wf by (simp add: sound_results_def)
  with rs1 wf show ?case
    by (intro exI [of _ "r # rs1"]) simp
qed

lemma runWorkers_facts:
  assumes "runWorkers e s ps = (rs, s')"
  shows "map res_path rs = ps" and "sound_results s rs" and "open_err s' = open_err s"
  using runWorkers_fold [of e "[]" s ps rs s'] assms
  by (auto simp: runWorkers_def)


lemma collect_fold:
  "foldl (\<lambda>(newTracks, errs) r.
            case res_err r of
              Some err \<Rightarrow> (newTracks, errs @ [res_path r @ '': '' @ Message err])
            | None \<Rightarrow> (newTracks @ [res_track r], errs))
     (ts, es) rs
   = (ts @ map res_track (filter ok rs), es @ map errline (filter (\<lambda>r. \<not> ok r) rs))"
  by (induction rs arbitrary: ts es) (auto simp: ok_def errline_def split: option.splits)

lemma collect_eq:
  "collect rs = (map res_track (filter ok rs), map errline (filter (\<lambda>r. \<not> ok r) rs))"
  by (simp add: collect_def collect_fold)

lemma find_unique:
  "distinct (map f xs) \<Longrightarrow> x \<in> set xs \<Longrightarrow> find (\<lambda>y. f y = f x) xs = Some x"
  by (induction xs) (auto simp: rev_image_eqI)

lemma loaded_fold:
  "distinct (map FilePath ts) \<Longrightarrow>
   foldl (\<lambda>mp t. mp(FilePath t \<mapsto> t)) mp ts p
     = (case find (\<lambda>t. FilePath t = p) ts of Some t \<Rightarrow> Some t | None \<Rightarrow> mp p)"
proof (induction ts arbitrary: mp)
  case Nil
  then show ?case by simp
next
  case (Cons t ts)
  from Cons.prems have "FilePath t \<notin> FilePath ` set ts"
    by simp
  then have "\<not> (\<exists>u. u \<in> set ts \<and> FilePath u = FilePath t)"
    by (metis imageI)
  then have "find (\<lambda>u. FilePath u = FilePath t) ts = None"
    by (simp add: find_None_iff)
  with Cons show ?case by auto
qed

lemma reorder_eq:
  "distinct (map FilePath ts) \<Longrightarrow>
   reorder unique ts = List.map_filter (\<lambda>p. find (\<lambda>t. FilePath t = p) ts) unique"
proof -
  assume d: "distinct (map FilePath ts)"
  have "foldl (\<lambda>mp t. mp(FilePath t \<mapsto> t)) Map.empty ts
          = (\<lambda>p. find (\<lambda>t. FilePath t = p) ts)"
    by (rule ext) (simp add: loaded_fold [OF d] split: option.splits)
  then show ?thesis
    by (simp add: reorder_def fold_map_filter)
qed

lemma sound_FilePath:
  "sound_results s rs \<Longrightarrow>
   map FilePath (map res_track (filter ok rs)) = map res_path (filter ok rs)"
  by (induction rs) (auto simp: sound_results_def ok_def)

lemma reorder_restores:
  assumes perm: "mset arrived = mset sent"
    and dist: "distinct (map res_path sent)"
    and sound: "sound_results s sent"
  shows "reorder (map res_path sent) (fst (collect arrived)) = map res_track (filter ok sent)"
proof -
  let ?ts = "map res_track (filter ok arrived)"
  have set_eq: "set arrived = set sent"
    using perm by (rule mset_eq_setD)
  have sound': "sound_results s arrived"
    using sound set_eq by (simp add: sound_results_def)
  have "mset (map res_path (filter ok arrived)) = mset (map res_path (filter ok sent))"
    using perm by simp
  moreover have "distinct (map res_path (filter ok sent))"
    using dist by (rule distinct_map_filter)
  ultimately have "distinct (map res_path (filter ok arrived))"
    using mset_eq_imp_distinct_iff by blast
  then have d: "distinct (map FilePath ?ts)"
    by (simp only: sound_FilePath [OF sound'])
  have look: "find (\<lambda>t. FilePath t = res_path r) ?ts
                = (if ok r then Some (res_track r) else None)" if r: "r \<in> set sent" for r
  proof (cases "ok r")
    case True
    then have mem: "res_track r \<in> set ?ts"
      using r set_eq by auto
    have "FilePath (res_track r) = res_path r"
      using sound r True by (simp add: sound_results_def ok_def)
    with find_unique [OF d mem] True show ?thesis by simp
  next
    case False
    have "FilePath t \<noteq> res_path r" if "t \<in> set ?ts" for t
    proof -
      from that obtain r' where r': "r' \<in> set sent" "ok r'" "t = res_track r'"
        using set_eq by auto
      then have fp: "FilePath t = res_path r'"
        using sound by (simp add: sound_results_def ok_def)
      have "r' \<noteq> r" using r'(2) False by auto
      then have "res_path r' \<noteq> res_path r"
        using dist r r'(1) by (meson distinct_map inj_onD)
      with fp show ?thesis by simp
    qed
    then have "find (\<lambda>t. FilePath t = res_path r) ?ts = None"
      by (auto simp: find_None_iff)
    with False show ?thesis by simp
  qed
  have "List.map_filter (\<lambda>p. find (\<lambda>t. FilePath t = p) ?ts) (map res_path sent)
          = List.map_filter (\<lambda>r. if ok r then Some (res_track r) else None) sent"
    using look by (induction sent) auto
  also have "\<dots> = map res_track (filter ok sent)"
    by (induction sent) auto
  finally show ?thesis
    by (simp add: reorder_eq [OF d] collect_eq)
qed


lemma mergeInto_Cons:
  "mergeInto m (t # ts) =
     mergeInto \<lparr>tracks = (tracks m)(FilePath t \<mapsto> t),
                order = (if tracks m (FilePath t) = None then order m @ [FilePath t]
                         else order m)\<rparr> ts"
  by (simp add: mergeInto_def)

lemma mergeInto_Nil: "mergeInto m [] = m"
  by (simp add: mergeInto_def)

lemma mergeInto_inv: "index_inv m \<Longrightarrow> index_inv (mergeInto m ts)"
proof (induction ts arbitrary: m)
  case Nil
  then show ?case by (simp add: mergeInto_Nil)
next
  case (Cons t ts)
  have "index_inv \<lparr>tracks = (tracks m)(FilePath t \<mapsto> t),
                    order = (if tracks m (FilePath t) = None then order m @ [FilePath t]
                             else order m)\<rparr>"
    using Cons.prems by (auto simp: index_inv_def)
  from Cons.IH [OF this] show ?case
    by (simp add: mergeInto_Cons)
qed

lemma mergeInto_tracks:
  "distinct (map FilePath ts) \<Longrightarrow>
   tracks (mergeInto m ts) p
     = (case find (\<lambda>t. FilePath t = p) ts of Some t \<Rightarrow> Some t | None \<Rightarrow> tracks m p)"
proof (induction ts arbitrary: m)
  case Nil
  then show ?case by (simp add: mergeInto_Nil)
next
  case (Cons t ts)
  from Cons.prems have "FilePath t \<notin> FilePath ` set ts"
    by simp
  then have "\<not> (\<exists>u. u \<in> set ts \<and> FilePath u = FilePath t)"
    by (metis imageI)
  then have "find (\<lambda>u. FilePath u = FilePath t) ts = None"
    by (simp add: find_None_iff)
  with Cons show ?case by (auto simp: mergeInto_Cons split: option.splits)
qed

lemma mergeInto_order:
  "distinct (map FilePath ts) \<Longrightarrow> FilePath ` set ts \<inter> dom (tracks m) = {} \<Longrightarrow>
   order (mergeInto m ts) = order m @ map FilePath ts"
proof (induction ts arbitrary: m)
  case Nil
  then show ?case by (simp add: mergeInto_Nil)
next
  case (Cons t ts)
  let ?m = "\<lparr>tracks = (tracks m)(FilePath t \<mapsto> t), order = order m @ [FilePath t]\<rparr>"
  from Cons.prems have new: "tracks m (FilePath t) = None"
    by auto
  have "order (mergeInto ?m ts) = order ?m @ map FilePath ts"
  proof (rule Cons.IH)
    show "distinct (map FilePath ts)"
      using Cons.prems by simp
    show "FilePath ` set ts \<inter> dom (tracks ?m) = {}"
      using Cons.prems by auto
  qed
  with new show ?case
    by (simp add: mergeInto_Cons)
qed

lemma map_filter_append:
  "List.map_filter f (xs @ ys) = List.map_filter f xs @ List.map_filter f ys"
  by (simp add: List.map_filter_def)

lemma map_filter_cong_set:
  "(\<And>x. x \<in> set xs \<Longrightarrow> f x = g x) \<Longrightarrow> List.map_filter f xs = List.map_filter g xs"
proof (induction xs)
  case Nil
  then show ?case by simp
next
  case (Cons x xs)
  have "f x = g x" by (rule Cons.prems) simp
  moreover have "List.map_filter f xs = List.map_filter g xs"
    by (rule Cons.IH) (simp add: Cons.prems)
  ultimately show ?case by (simp split: option.splits)
qed

lemma map_filter_keys:
  "(\<And>t. t \<in> set ts \<Longrightarrow> g (k t) = Some t) \<Longrightarrow> List.map_filter g (map k ts) = ts"
proof (induction ts)
  case Nil
  then show ?case by simp
next
  case (Cons t ts)
  have "g (k t) = Some t" by (rule Cons.prems) simp
  moreover have "List.map_filter g (map k ts) = ts"
    by (rule Cons.IH) (simp add: Cons.prems)
  ultimately show ?case by simp
qed

lemma snapshot_mergeInto:
  assumes inv: "index_inv m"
    and d: "distinct (map FilePath ts)"
    and new: "FilePath ` set ts \<inter> dom (tracks m) = {}"
  shows "snapshotLocked (mergeInto m ts) = snapshotLocked m @ ts"
proof -
  let ?m1 = "mergeInto m ts"
  have old: "tracks ?m1 p = tracks m p" if "p \<in> set (order m)" for p
  proof -
    from that inv have "p \<in> dom (tracks m)" by (simp add: index_inv_def)
    with new have "\<not> (\<exists>t. t \<in> set ts \<and> FilePath t = p)" by auto
    then have "find (\<lambda>t. FilePath t = p) ts = None" by (simp add: find_None_iff)
    then show ?thesis by (simp add: mergeInto_tracks [OF d])
  qed
  have fresh: "tracks ?m1 (FilePath t) = Some t" if "t \<in> set ts" for t
    using find_unique [OF d that] by (simp add: mergeInto_tracks [OF d])
  have "List.map_filter (tracks ?m1) (map FilePath ts) = ts"
    using fresh by (rule map_filter_keys)
  moreover have "List.map_filter (tracks ?m1) (order m) = List.map_filter (tracks m) (order m)"
    using old by (rule map_filter_cong_set)
  ultimately show ?thesis
    by (simp add: snapshotLocked_eq mergeInto_order [OF d new] map_filter_append)
qed

lemma reorder_Nil: "reorder [] ts = []"
  by (simp add: reorder_def)

lemma loadAndMerge_manager:
  "fst (snd (loadAndMerge e arrival s m paths persist))
     = mergeInto m (batch_tracks e arrival s m paths)"
  by (simp add: loadAndMerge_def batch_tracks_def Let_def reorder_Nil mergeInto_Nil
        split: prod.splits option.splits)

lemma loadAndMerge_Tracks:
  "Tracks (fst (fst (loadAndMerge e arrival s m paths persist)))
     = snapshot (fst (snd (loadAndMerge e arrival s m paths persist)))"
  by (simp add: loadAndMerge_def Let_def split: prod.splits option.splits)

lemma loadAndMerge_error:
  "snd (fst (loadAndMerge e arrival s m paths persist)) = None"
  by (simp add: loadAndMerge_def Let_def split: prod.splits option.splits)


lemma mergeInto_dom: "dom (tracks (mergeInto m ts)) = dom (tracks m) \<union> FilePath ` set ts"
proof (induction ts arbitrary: m)
  case Nil
  then show ?case by (simp add: mergeInto_Nil)
next
  case (Cons t ts)
  have "dom (tracks \<lparr>tracks = (tracks m)(FilePath t \<mapsto> t), order = xs\<rparr>)
          = insert (FilePath t) (dom (tracks m))" for xs
    by simp
  then show ?case
    by (simp only: mergeInto_Cons Cons.IH) auto
qed

lemma batch_tracks_eq:
  assumes perm: "\<And>rs. mset (arrival rs) = mset rs"
    and run: "runWorkers e s (filterNew m paths) = (sent, s1)"
  shows "batch_tracks e arrival s m paths = map res_track (filter ok sent)"
proof -
  note rf = runWorkers_facts [OF run]
  have "distinct (map res_path sent)"
    using rf(1) filterNew_distinct by simp
  from reorder_restores [OF perm this rf(2)] rf(1) run show ?thesis
    by (simp add: batch_tracks_def)
qed

lemma ok_open:
  "sound_results s rs \<Longrightarrow>
   map res_path (filter ok rs) = filter (\<lambda>p. open_err s p = None) (map res_path rs)"
  by (induction rs) (auto simp: sound_results_def ok_def)

lemma batch_tracks_paths:
  assumes perm: "\<And>rs. mset (arrival rs) = mset rs"
  shows "map FilePath (batch_tracks e arrival s m paths)
           = filter (\<lambda>p. open_err s p = None) (filterNew m paths)"
proof -
  obtain sent s1 where run: "runWorkers e s (filterNew m paths) = (sent, s1)"
    by (cases "runWorkers e s (filterNew m paths)")
  note rf = runWorkers_facts [OF run]
  have "map FilePath (batch_tracks e arrival s m paths) = map res_path (filter ok sent)"
    using batch_tracks_eq [OF perm run] sound_FilePath [OF rf(2)] by simp
  also have "\<dots> = filter (\<lambda>p. open_err s p = None) (filterNew m paths)"
    using ok_open [OF rf(2)] rf(1) by simp
  finally show ?thesis .
qed

lemma batch_tracks_fresh:
  assumes perm: "\<And>rs. mset (arrival rs) = mset rs"
  shows "distinct (map FilePath (batch_tracks e arrival s m paths))"
    and "FilePath ` set (batch_tracks e arrival s m paths) \<inter> dom (tracks m) = {}"
proof -
  show "distinct (map FilePath (batch_tracks e arrival s m paths))"
    by (simp add: batch_tracks_paths [OF perm] filterNew_distinct)
  have "set (map FilePath (batch_tracks e arrival s m paths)) \<subseteq> set (filterNew m paths)"
    by (simp add: batch_tracks_paths [OF perm])
  then show "FilePath ` set (batch_tracks e arrival s m paths) \<inter> dom (tracks m) = {}"
    by (auto simp: filterNew_set)
qed

lemma loadAndMerge_snapshot:
  assumes inv: "index_inv m" and perm: "\<And>rs. mset (arrival rs) = mset rs"
  shows "Tracks (fst (fst (loadAndMerge e arrival s m paths persist)))
           = snapshot m @ batch_tracks e arrival s m paths"
  using snapshot_mergeInto [OF inv batch_tracks_fresh [OF perm]]
  by (simp add: loadAndMerge_Tracks loadAndMerge_manager snapshot_def)

lemma index_inv_NewManager: "index_inv NewManager"
  by (simp add: index_inv_def NewManager_def)

lemma example_arrival_perm: "mset (example_arrival rs) = mset rs"
  by (simp add: example_arrival_def)

lemma loadAndMerge_inv:
  "index_inv m \<Longrightarrow> index_inv (fst (snd (loadAndMerge e arrival s m paths persist)))"
  by (simp add: loadAndMerge_manager mergeInto_inv)

lemma ApplyMetadata_inv:
  "index_inv m \<Longrightarrow> index_inv (snd (ApplyMetadata m path overlay))"
  by (auto simp: ApplyMetadata_def index_inv_def Let_def split: option.splits)

lemma UpdateAndReload_inv:
  "index_inv m \<Longrightarrow> index_inv (fst (snd (UpdateAndReload e s m md)))"
  by (auto simp: UpdateAndReload_def index_inv_def hasPath_def Let_def
        split: prod.splits option.splits sum.splits)

lemma loadAndMerge_unfold:
  assumes run: "runWorkers e s (filterNew m paths) = (sent, s1)"
    and nonempty: "filterNew m paths \<noteq> []"
  shows "loadAndMerge e arrival s m paths persist =
     (let errs = map errline (filter (\<lambda>r. \<not> ok r) (arrival sent));
          m1 = mergeInto m (batch_tracks e arrival s m paths)
      in if batch_tracks e arrival s m paths \<noteq> [] \<and> persist
         then (case SaveLibrary e s1 (order m1) of
                 (Some err, s2) \<Rightarrow>
                   ((\<lparr>Tracks = snapshot m1,
                      Errors = errs @ [''save library failed: '' @ Message err]\<rparr>, None),
                    m1, s2)
               | (None, s2) \<Rightarrow> ((\<lparr>Tracks = snapshot m1, Errors = errs\<rparr>, None), m1, s2))
         else ((\<lparr>Tracks = snapshot m1, Errors = errs\<rparr>, None), m1, s1))"
  using nonempty
  by (simp add: loadAndMerge_def batch_tracks_def run collect_eq Let_def mergeInto_Nil)

lemma loadAndMerge_errors_superset:
  assumes run: "runWorkers e s (filterNew m paths) = (sent, s1)"
    and nonempty: "filterNew m paths \<noteq> []"
  shows "set (map errline (filter (\<lambda>r. \<not> ok r) (arrival sent)))
           \<subseteq> set (Errors (fst (fst (loadAndMerge e arrival s m paths persist))))"
  by (auto simp: loadAndMerge_unfold [OF run nonempty] Let_def split: prod.splits option.splits)


lemma sent_result:
  assumes run: "runWorkers e s unique = (sent, s1)" and p: "p \<in> set unique"
  obtains r where "r \<in> set sent" "res_path r = p" "res_err r = open_err s p"
    "res_err r = None \<Longrightarrow> FilePath (res_track r) = p"
proof -
  note rf = runWorkers_facts [OF run]
  from p rf(1) obtain r where r: "r \<in> set sent" "res_path r = p"
    by (metis (no_types, lifting) image_iff list.set_map)
  with rf(2) have "res_err r = open_err s p"
    and "res_err r = None \<Longrightarrow> FilePath (res_track r) = p"
    by (auto simp: sound_results_def)
  with r show thesis by (rule that)
qed




section \<open>Claims about the batch\<close>

text \<open>
  C1. Whatever the order in which the workers' results arrive, the snapshot that
  \<open>loadAndMerge\<close> returns is the snapshot before the call followed by the newly added
  records, and the paths of these are the new paths of the input whose files could be
  opened, in the order of the input: a subsequence of the input list, and the input list
  itself when its paths are distinct, all new and all readable.
\<close>

theorem loadAndMerge_keeps_input_order:
  assumes inv: "index_inv m" and perm: "\<And>rs. mset (arrival rs) = mset rs"
    and r: "r = fst (fst (loadAndMerge e arrival s m paths persist))"
    and new: "new = drop (length (snapshot m)) (Tracks r)"
  shows "Tracks r = snapshot m @ new \<and>
         map FilePath new = filter (\<lambda>p. open_err s p = None) (filterNew m paths) \<and>
         subseq (map FilePath new) paths \<and>
         (distinct paths \<and> set paths \<inter> dom (tracks m) = {} \<and>
            (\<forall>p \<in> set paths. open_err s p = None) \<longrightarrow> map FilePath new = paths)"
proof -
  have T: "Tracks r = snapshot m @ batch_tracks e arrival s m paths"
    unfolding r by (rule loadAndMerge_snapshot [OF inv perm])
  then have N: "new = batch_tracks e arrival s m paths"
    by (simp add: new)
  have P: "map FilePath new = filter (\<lambda>p. open_err s p = None) (filterNew m paths)"
    unfolding N by (rule batch_tracks_paths [OF perm])
  have "subseq (map FilePath new) (filterNew m paths)"
    unfolding P by (rule subseq_filter_left)
  then have S: "subseq (map FilePath new) paths"
    using filterNew_subseq subseq_order.trans by blast
  have "map FilePath new = paths"
    if "distinct paths" "set paths \<inter> dom (tracks m) = {}" "\<forall>p \<in> set paths. open_err s p = None"
    using that by (simp add: P filterNew_id)
  with T N P S show ?thesis by simp
qed

text \<open>
  The theorem at work: three new, readable files, with the workers' results arriving in
  reverse. The snapshot lists them in the order of the input.
\<close>

theorem loadAndMerge_keeps_input_order_witness:
  "index_inv NewManager \<and> (\<forall>rs. mset (example_arrival rs) = mset rs) \<and>
   map FilePath
     (Tracks (fst (fst (loadAndMerge example_env example_arrival example_fs NewManager
        [''/music/a.flac'', ''/music/b.flac'', ''/music/c.flac''] True))))
     = [''/music/a.flac'', ''/music/b.flac'', ''/music/c.flac'']"
proof -
  let ?paths = "[''/music/a.flac'', ''/music/b.flac'', ''/music/c.flac'']"
  let ?r = "fst (fst (loadAndMerge example_env example_arrival example_fs NewManager ?paths True))"
  have h: "distinct ?paths \<and> set ?paths \<inter> dom (tracks NewManager) = {} \<and>
           (\<forall>p \<in> set ?paths. open_err example_fs p = None)"
    by (simp add: NewManager_def example_fs_def)
  have z: "drop (length (snapshot NewManager)) (Tracks ?r) = Tracks ?r"
    by (simp add: snapshot_def snapshotLocked_def NewManager_def)
  note th = loadAndMerge_keeps_input_order
         [OF index_inv_NewManager example_arrival_perm refl refl,
          of example_env example_fs ?paths True]
  from th h have "map FilePath (drop (length (snapshot NewManager)) (Tracks ?r)) = ?paths"
    by blast
  then have "map FilePath (Tracks ?r) = ?paths"
    by (simp only: z)
  with index_inv_NewManager example_arrival_perm show ?thesis
    by blast
qed

text \<open>
  C2. Every operation of the manager that changes the index preserves the index
  invariant: \<open>loadAndMerge\<close> and with it \<open>AddFiles\<close> and \<open>LoadStoredLibrary\<close>,
  \<open>ApplyMetadata\<close> and \<open>UpdateAndReload\<close> turn an index whose order sequence holds
  exactly the keys of the map, each once, into another such index.
\<close>

theorem index_invariant_preserved:
  assumes "index_inv m"
  shows "index_inv (fst (snd (loadAndMerge e arrival s m paths persist))) \<and>
         index_inv (fst (snd (AddFiles e arrival s m paths))) \<and>
         index_inv (fst (snd (LoadStoredLibrary e arrival s m))) \<and>
         index_inv (snd (ApplyMetadata m path overlay)) \<and>
         index_inv (fst (snd (UpdateAndReload e s m md)))"
  using assms
  by (simp add: AddFiles_def LoadStoredLibrary_def loadAndMerge_inv ApplyMetadata_inv
        UpdateAndReload_inv split: sum.splits)

text \<open>The theorem at work on the empty index of \<open>NewManager\<close>, which has the invariant.\<close>

theorem index_invariant_preserved_witness:
  "index_inv NewManager \<and>
   index_inv (fst (snd (loadAndMerge example_env example_arrival example_fs NewManager
       [''/music/a.flac'', ''/music/missing.flac'', ''/music/a.flac''] False))) \<and>
   index_inv (fst (snd (AddFiles example_env example_arrival example_fs NewManager
       [''/music/c.flac'', ''/music/a.flac'']))) \<and>
   index_inv (fst (snd (LoadStoredLibrary example_env example_arrival example_fs NewManager))) \<and>
   index_inv (snd (ApplyMetadata NewManager ''/music/b.flac'' example_edit)) \<and>
   index_inv (fst (snd (UpdateAndReload example_env example_fs NewManager example_edit)))"
  using index_invariant_preserved [OF index_inv_NewManager] index_inv_NewManager
  by blast

text \<open>
  C4. No failure aborts a batch. \<open>AddFiles\<close> returns no top-level error. Every new path
  whose file cannot be opened is reported in the errors list as the path, a colon and
  the error, and stays out of the index; every other new path gets its record into the
  index and into the snapshot. The index and the snapshot are the ones that the same
  batch yields without persistence, and when the batch added a record and saving the
  path list fails, the errors list is that of the batch without persistence followed
  by one line for the save failure.
\<close>

theorem AddFiles_failures_isolated:
  assumes inv: "index_inv m" and perm: "\<And>rs. mset (arrival rs) = mset rs"
    and add: "AddFiles e arrival s m paths = ((r, failure), m1, s2)"
    and run: "runWorkers e s (filterNew m paths) = (sent, s1)"
  shows "failure = None \<and>
         (\<forall>p \<in> set (filterNew m paths).
            case open_err s p of
              Some err \<Rightarrow> (p @ '': '' @ Message err) \<in> set (Errors r) \<and> tracks m1 p = None
            | None \<Rightarrow> (\<exists>t \<in> set (Tracks r). FilePath t = p \<and> tracks m1 p = Some t)) \<and>
         m1 = fst (snd (loadAndMerge e arrival s m paths False)) \<and>
         Tracks r = Tracks (fst (fst (loadAndMerge e arrival s m paths False))) \<and>
         (\<forall>err s'. Tracks r \<noteq> snapshot m \<and> SaveLibrary e s1 (order m1) = (Some err, s')
            \<longrightarrow> Errors r = Errors (fst (fst (loadAndMerge e arrival s m paths False)))
                              @ [''save library failed: '' @ Message err])"
proof -
  let ?batch = "batch_tracks e arrival s m paths"
  have L: "loadAndMerge e arrival s m paths True = ((r, failure), m1, s2)"
    using add by (simp add: AddFiles_def)
  have failure: "failure = None"
    using loadAndMerge_error [of e arrival s m paths True] L by simp
  have m1: "m1 = mergeInto m ?batch"
    using loadAndMerge_manager [of e arrival s m paths True] L by simp
  have same_m: "m1 = fst (snd (loadAndMerge e arrival s m paths False))"
    by (simp add: m1 loadAndMerge_manager)
  have T: "Tracks r = snapshot m @ ?batch"
    using loadAndMerge_snapshot [OF inv perm, of e s paths True] L by simp
  have same_T: "Tracks r = Tracks (fst (fst (loadAndMerge e arrival s m paths False)))"
    by (simp add: T loadAndMerge_snapshot [OF inv perm])
  note fresh = batch_tracks_fresh [OF perm, of e s m paths]
  have B: "?batch = map res_track (filter ok sent)"
    by (rule batch_tracks_eq [OF perm run])
  have per_file:
    "case open_err s p of
       Some err \<Rightarrow> (p @ '': '' @ Message err) \<in> set (Errors r) \<and> tracks m1 p = None
     | None \<Rightarrow> (\<exists>t \<in> set (Tracks r). FilePath t = p \<and> tracks m1 p = Some t)"
    if p: "p \<in> set (filterNew m paths)" for p
  proof -
    from p have nonempty: "filterNew m paths \<noteq> []" by auto
    from sent_result [OF run p] obtain x where x: "x \<in> set sent" "res_path x = p"
      "res_err x = open_err s p" "res_err x = None \<Longrightarrow> FilePath (res_track x) = p"
      by blast
    show ?thesis
    proof (cases "open_err s p")
      case (Some err)
      have "x \<in> set (arrival sent)"
        using x(1) mset_eq_setD [OF perm] by blast
      moreover have "\<not> ok x" "errline x = p @ '': '' @ Message err"
        using x Some by (simp_all add: ok_def errline_def)
      ultimately have "p @ '': '' @ Message err
                         \<in> set (map errline (filter (\<lambda>r. \<not> ok r) (arrival sent)))"
        by force
      with loadAndMerge_errors_superset [OF run nonempty, of arrival True] L
      have E: "p @ '': '' @ Message err \<in> set (Errors r)"
        by auto
      have "p \<notin> dom (tracks m)"
        using p by (simp add: filterNew_set)
      moreover have "p \<notin> FilePath ` set ?batch"
      proof -
        have "set (map FilePath ?batch) = {q \<in> set (filterNew m paths). open_err s q = None}"
          by (simp add: batch_tracks_paths [OF perm])
        with Some show ?thesis by auto
      qed
      ultimately have "tracks m1 p = None"
        using mergeInto_dom [of m ?batch] m1 by blast
      with E Some show ?thesis by simp
    next
      case None
      with x have okx: "ok x" and fp: "FilePath (res_track x) = p"
        by (simp_all add: ok_def)
      with x(1) B have mem: "res_track x \<in> set ?batch"
        by simp
      from find_unique [OF fresh(1) mem] fp
      have "tracks m1 p = Some (res_track x)"
        by (simp add: m1 mergeInto_tracks [OF fresh(1)])
      with mem fp T None show ?thesis by auto
    qed
  qed
  have save: "Errors r = Errors (fst (fst (loadAndMerge e arrival s m paths False)))
                           @ [''save library failed: '' @ Message err]"
    if changed: "Tracks r \<noteq> snapshot m" and fail: "SaveLibrary e s1 (order m1) = (Some err, s')"
    for err s'
  proof -
    from changed T have batch: "?batch \<noteq> []" by auto
    then have nonempty: "filterNew m paths \<noteq> []"
      by (auto simp: batch_tracks_def reorder_Nil)
    let ?errs = "map errline (filter (\<lambda>r. \<not> ok r) (arrival sent))"
    have "loadAndMerge e arrival s m paths True =
            ((\<lparr>Tracks = snapshot m1,
               Errors = ?errs @ [''save library failed: '' @ Message err]\<rparr>, None), m1, s')"
      using fail batch by (simp add: loadAndMerge_unfold [OF run nonempty] Let_def flip: m1)
    with L have "Errors r = ?errs @ [''save library failed: '' @ Message err]"
      by auto
    moreover have "Errors (fst (fst (loadAndMerge e arrival s m paths False))) = ?errs"
      by (simp add: loadAndMerge_unfold [OF run nonempty] Let_def)
    ultimately show ?thesis by simp
  qed
  from failure per_file same_m same_T save show ?thesis
    by blast
qed

text \<open>
  The theorem at work: a batch of three paths whose second file is missing, on a disk
  where the library file cannot be written.
\<close>

theorem AddFiles_failures_isolated_witness:
  "index_inv NewManager \<and> (\<forall>rs. mset (example_arrival rs) = mset rs) \<and>
   snd (fst (AddFiles example_env example_arrival example_readonly_fs NewManager
          [''/music/a.flac'', ''/music/missing.flac'', ''/music/c.flac''])) = None \<and>
   ''/music/missing.flac: open /music/missing.flac: no such file or directory''
     \<in> set (Errors (fst (fst (AddFiles example_env example_arrival example_readonly_fs
            NewManager [''/music/a.flac'', ''/music/missing.flac'', ''/music/c.flac''])))) \<and>
   (\<exists>t \<in> set (Tracks (fst (fst (AddFiles example_env example_arrival example_readonly_fs
            NewManager [''/music/a.flac'', ''/music/missing.flac'', ''/music/c.flac''])))).
      FilePath t = ''/music/c.flac'')"
proof -
  let ?paths = "[''/music/a.flac'', ''/music/missing.flac'', ''/music/c.flac'']"
  let ?A = "AddFiles example_env example_arrival example_readonly_fs NewManager ?paths"
  obtain r failure m1 s2 where add: "?A = ((r, failure), m1, s2)"
    by (metis prod.collapse)
  obtain sent s1 where
    run: "runWorkers example_env example_readonly_fs (filterNew NewManager ?paths) = (sent, s1)"
    by (metis prod.collapse)
  note th = AddFiles_failures_isolated [OF index_inv_NewManager example_arrival_perm add run]
  have new: "filterNew NewManager ?paths = ?paths"
    by code_simp
  have missing: "open_err example_readonly_fs ''/music/missing.flac''
                   = Some (Error True ''open /music/missing.flac: no such file or directory'')"
    by code_simp
  have c: "open_err example_readonly_fs ''/music/c.flac'' = None"
    by code_simp
  from th have "failure = None" by blast
  moreover from th new missing
  have "''/music/missing.flac: open /music/missing.flac: no such file or directory''
          \<in> set (Errors r)"
    by force
  moreover from th new c have "\<exists>t \<in> set (Tracks r). FilePath t = ''/music/c.flac''"
    by force
  ultimately show ?thesis
    using index_inv_NewManager example_arrival_perm add by simp
qed




section \<open>Claims about the sidecar cache\<close>




end
